theory Spec2Isabelle
  imports Complex_Main
begin

section \<open>The gaze overlay of BioSync (gaze-overlay.tsx)\<close>

text \<open>
  The component polls an eye-tracking backend, maps each sample to a point of the
  viewport, highlights the activatable element under that point and reads its settings
  from localStorage. The development embeds the component's functions as HOL functions
  on an explicit state and proves the properties its specification claims.
\<close>

subsection \<open>JavaScript numbers\<close>

text \<open>
  A JavaScript number is an IEEE 754 double: NaN, an infinity, the negative zero or a
  finite value (\<open>Fin 0\<close> is the positive zero). A finite value is given by the real
  number it stands for; the operators \<open>*\<close> and \<open>/\<close> round their exact result to the
  nearest double, ties to even, overflow to an infinity and underflow to a zero.
\<close>

datatype jsnum = NaN | NInf | PInf | NegZero | Fin real

fun is_zero :: "jsnum \<Rightarrow> bool" where
  "is_zero NegZero = True"
| "is_zero (Fin r) = (r = 0)"
| "is_zero _ = False"

fun is_inf :: "jsnum \<Rightarrow> bool" where
  "is_inf NInf = True"
| "is_inf PInf = True"
| "is_inf _ = False"

text \<open>The sign bit.\<close>

fun negative :: "jsnum \<Rightarrow> bool" where
  "negative NInf = True"
| "negative NegZero = True"
| "negative (Fin r) = (r < 0)"
| "negative _ = False"

fun magnitude :: "jsnum \<Rightarrow> real" where
  "magnitude (Fin r) = r"
| "magnitude _ = 0"

definition signed_zero :: "bool \<Rightarrow> jsnum" where
  "signed_zero neg = (if neg then NegZero else Fin 0)"

definition signed_inf :: "bool \<Rightarrow> jsnum" where
  "signed_inf neg = (if neg then NInf else PInf)"

text \<open>
  The exponent of the quantum: the sum of those \<open>k\<close> of the list, taken in order, for
  which \<open>2 ^ k\<close> still divides into what is left of \<open>b\<close>. On the powers of two from 1024
  down to 1 this is the integer part of the binary logarithm of \<open>b\<close>, for
  \<open>1 \<le> b < 2 ^ 2048\<close>, and 0 below 2.
\<close>

primrec binary_exponent :: "nat list \<Rightarrow> real \<Rightarrow> nat" where
  "binary_exponent [] b = 0"
| "binary_exponent (k # ks) b =
     (if 2 ^ k \<le> b then k + binary_exponent ks (b / 2 ^ k) else binary_exponent ks b)"

text \<open>The nearest integer, a tie going to the even one.\<close>

definition round_half_even :: "real \<Rightarrow> int" where
  "round_half_even t =
     (let f = \<lfloor>t\<rfloor> in
      if t - of_int f < 1 / 2 then f
      else if 1 / 2 < t - of_int f then f + 1
      else if even f then f else f + 1)"

text \<open>
  Rounding to a binary format whose least positive value is \<open>2 ^ - s\<close>, with \<open>p\<close>
  fraction bits, and whose values stay below \<open>2 ^ t\<close>. The magnitude is counted in units
  of the least value (\<open>n\<close>); the quantum \<open>2 ^ k\<close> leaves \<open>p + 1\<close> significant bits (one
  unit for a subnormal); \<open>m\<close> is the rounded significand.
\<close>

definition round_binary :: "nat \<Rightarrow> nat \<Rightarrow> nat \<Rightarrow> nat list \<Rightarrow> real \<Rightarrow> jsnum" where
  "round_binary s p t ks r =
     (let n = \<bar>r\<bar> * 2 ^ s;
          k = binary_exponent ks (n / 2 ^ p);
          m = round_half_even (n / 2 ^ k);
          v = of_int m * 2 ^ k / 2 ^ s
      in if 2 ^ t \<le> v then signed_inf (r < 0)
         else if m = 0 then signed_zero (r < 0)
         else Fin (if r < 0 then - v else v))"

text \<open>
  A double: least positive value \<open>2 ^ - 1074\<close>, 52 fraction bits, overflow from
  \<open>2 ^ 1024\<close>.
\<close>

definition round_double :: "real \<Rightarrow> jsnum" where
  "round_double r =
     round_binary 1074 52 1024 [1024, 512, 256, 128, 64, 32, 16, 8, 4, 2, 1] r"

text \<open>
  The reals a format holds: an integer below \<open>2 ^ (p + 1)\<close> in magnitude times a power
  of two within the format's range.
\<close>

definition representable :: "nat \<Rightarrow> nat \<Rightarrow> nat \<Rightarrow> real \<Rightarrow> bool" where
  "representable s p t r =
     (\<exists>m e. \<bar>m :: int\<bar> < 2 ^ (p + 1) \<and> e + p + 1 \<le> s + t \<and> r = of_int m * 2 ^ e / 2 ^ s)"

definition is_double :: "real \<Rightarrow> bool" where
  "is_double r = representable 1074 52 1024 r"

text \<open>
  A magnitude between \<open>2 ^ - 1021\<close> and \<open>2 ^ 1023\<close>: a result there, and one a rounding
  away from it, is a normal double.
\<close>

definition in_normal_range :: "real \<Rightarrow> bool" where
  "in_normal_range r = (2 ^ 53 \<le> \<bar>r\<bar> * 2 ^ 1074 \<and> \<bar>r\<bar> * 2 \<le> 2 ^ 1024)"

text \<open>The operator \<open>*\<close>.\<close>

definition js_mul :: "jsnum \<Rightarrow> jsnum \<Rightarrow> jsnum" where
  "js_mul a b =
     (if a = NaN \<or> b = NaN then NaN
      else if (is_inf a \<and> is_zero b) \<or> (is_zero a \<and> is_inf b) then NaN
      else if is_inf a \<or> is_inf b then signed_inf (negative a \<noteq> negative b)
      else if is_zero a \<or> is_zero b then signed_zero (negative a \<noteq> negative b)
      else round_double (magnitude a * magnitude b))"

text \<open>The operator \<open>/\<close>: a division by zero is an infinity, or NaN for 0 / 0.\<close>

definition js_div :: "jsnum \<Rightarrow> jsnum \<Rightarrow> jsnum" where
  "js_div a b =
     (if a = NaN \<or> b = NaN then NaN
      else if (is_inf a \<and> is_inf b) \<or> (is_zero a \<and> is_zero b) then NaN
      else if is_inf a \<or> is_zero b then signed_inf (negative a \<noteq> negative b)
      else if is_zero a \<or> is_inf b then signed_zero (negative a \<noteq> negative b)
      else round_double (magnitude a / magnitude b))"

text \<open>The order Math.min and Math.max compare by: the negative zero is below the positive.\<close>

fun js_le :: "jsnum \<Rightarrow> jsnum \<Rightarrow> bool" where
  "js_le NaN _ = False"
| "js_le _ NaN = False"
| "js_le NInf _ = True"
| "js_le _ PInf = True"
| "js_le PInf _ = False"
| "js_le _ NInf = False"
| "js_le NegZero NegZero = True"
| "js_le NegZero (Fin r) = (0 \<le> r)"
| "js_le (Fin r) NegZero = (r < 0)"
| "js_le (Fin a) (Fin b) = (a \<le> b)"

definition Math_min :: "jsnum \<Rightarrow> jsnum \<Rightarrow> jsnum" where
  "Math_min a b = (if a = NaN \<or> b = NaN then NaN else if js_le a b then a else b)"

definition Math_max :: "jsnum \<Rightarrow> jsnum \<Rightarrow> jsnum" where
  "Math_max a b = (if a = NaN \<or> b = NaN then NaN else if js_le a b then b else a)"

text \<open>Number.isNaN.\<close>

definition Number_isNaN :: "jsnum \<Rightarrow> bool" where
  "Number_isNaN a = (a = NaN)"

text \<open>
  A property read from an object: \<open>None\<close> is \<open>undefined\<close> (the property is absent), and
  an arithmetic operator takes \<open>undefined\<close> as NaN.
\<close>

definition ToNumber :: "jsnum option \<Rightarrow> jsnum" where
  "ToNumber v = (case v of None \<Rightarrow> NaN | Some n \<Rightarrow> n)"

text \<open>\<open>window.innerWidth\<close> and \<open>window.innerHeight\<close> are integers.\<close>

definition of_long :: "int \<Rightarrow> jsnum" where
  "of_long i = Fin (of_int i)"

subsection \<open>Samples, calibration and the viewport\<close>

text \<open>
  \<open>type Calibration = { width: number; height: number } | null\<close>: what JSON.parse made of
  the stored text. \<open>None\<close> as a value of type \<open>calibration option\<close> is null (or any other
  falsy value).
\<close>

record calibration =
  width :: "jsnum option"
  height :: "jsnum option"

text \<open>An object \<open>{x, y}\<close> of the backend's response.\<close>

record coords =
  coord_x :: "jsnum option"
  coord_y :: "jsnum option"

text \<open>
  The body of the response of \<open>GET /api/gaze\<close>, as far as pollGaze reads it: the
  properties \<open>calibrated_position\<close> and \<open>normalized_pupil\<close>, each an object or absent
  (a body that is null or no object has neither).
\<close>

record gaze_sample =
  calibrated_position :: "coords option"
  normalized_pupil :: "coords option"

text \<open>
  The window, as far as the mapping reads it: \<open>window.innerWidth\<close> and
  \<open>window.innerHeight\<close>.
\<close>

record window =
  innerWidth :: int
  innerHeight :: int

text \<open>
  pollGaze, lines 143 to 155: \<open>px\<close> and \<open>py\<close>, null (\<open>None\<close>) unless a branch assigns
  them.
\<close>

definition gaze_px_py ::
  "window \<Rightarrow> calibration option \<Rightarrow> gaze_sample \<Rightarrow> jsnum option \<times> jsnum option" where
  "gaze_px_py win calib data =
     (case (calibrated_position data, calib) of
        (Some cp, Some c) \<Rightarrow>
          (let scaleX = js_div (of_long (innerWidth win)) (ToNumber (width c));
               scaleY = js_div (of_long (innerHeight win)) (ToNumber (height c))
           in (Some (js_mul (ToNumber (coord_x cp)) scaleX),
               Some (js_mul (ToNumber (coord_y cp)) scaleY)))
      | _ \<Rightarrow>
          (case normalized_pupil data of
             Some np \<Rightarrow>
               (Some (js_mul (ToNumber (coord_x np)) (of_long (innerWidth win))),
                Some (js_mul (ToNumber (coord_y np)) (of_long (innerHeight win))))
           | None \<Rightarrow> (None, None)))"

text \<open>Lines 168 and 169: the clamp of one coordinate.\<close>

definition clamped :: "int \<Rightarrow> jsnum \<Rightarrow> jsnum" where
  "clamped d p = Math_max (Fin 12) (Math_min (of_long (d - 12)) p)"

text \<open>
  Lines 157 to 171: the point pollGaze hands to setPosition and to the hit test, or
  \<open>None\<close> where it takes the early return of line 165.
\<close>

definition gaze_point ::
  "window \<Rightarrow> calibration option \<Rightarrow> gaze_sample \<Rightarrow> (jsnum \<times> jsnum) option" where
  "gaze_point win calib data =
     (case gaze_px_py win calib data of
        (Some px, Some py) \<Rightarrow>
          (if Number_isNaN px \<or> Number_isNaN py then None
           else Some (clamped (innerWidth win) px, clamped (innerHeight win) py))
      | _ \<Rightarrow> None)"

subsection \<open>The component's state\<close>

text \<open>
  The React state (\<open>enabled\<close>, \<open>position\<close>), the refs, and what the component
  changes outside itself: the class lists of the document's elements, the window's
  table of running intervals and the console's warnings. Elements are values of a type
  \<open>'e\<close>, compared by identity.
\<close>

record 'e overlay =
  enabled :: bool
  position :: "(jsnum \<times> jsnum) option"
  backendRef :: "string option"
  calibrationRef :: "calibration option"
  pollTimerRef :: "nat option"
  pollingBusyRef :: bool
  highlightedRef :: "'e option"
  classList :: "'e \<Rightarrow> string set"
  intervals :: "nat set"
  console_warnings :: "string list"

text \<open>
  The state at mount: \<open>useState(false)\<close>, \<open>useState(null)\<close>, the refs at their initial
  values, on a document none of whose elements has a class yet.
\<close>

definition initial_overlay :: "'e overlay" where
  "initial_overlay =
     \<lparr>enabled = False, position = None, backendRef = None, calibrationRef = None,
      pollTimerRef = None, pollingBusyRef = False, highlightedRef = None,
      classList = (\<lambda>e. {}), intervals = {}, console_warnings = []\<rparr>"

definition BACKEND_URL_STORAGE_KEY :: string where
  "BACKEND_URL_STORAGE_KEY = ''eye-tracker-backend-url''"

definition CALIBRATION_STORAGE_KEY :: string where
  "CALIBRATION_STORAGE_KEY = ''eye-tracker-calibration''"

definition OVERLAY_ENABLED_KEY :: string where
  "OVERLAY_ENABLED_KEY = ''eye-tracker-overlay-enabled''"

definition highlightClasses :: "string list" where
  "highlightClasses =
     [''ring-2'', ''ring-[#0affad]'', ''ring-offset-2'', ''ring-offset-white'',
      ''dark:ring-offset-gray-950'', ''shadow-[0_0_0_6px_rgba(10,255,173,0.18)]'']"

subsection \<open>clearHighlight and applyHighlight\<close>

text \<open>
  The two functions change the state by a sequence of single writes: a class removed
  from or added to an element's class list, or \<open>highlightedRef.current\<close> assigned.
  Each function is given as the list of the writes it performs, in the order of the
  source, so that the states between two writes can be spoken of.
\<close>

datatype 'e mutation =
  ClassList_remove 'e string
| ClassList_add 'e string
| Set_highlightedRef "'e option"

fun mutate :: "'e mutation \<Rightarrow> 'e overlay \<Rightarrow> 'e overlay" where
  "mutate (ClassList_remove e c) s = s\<lparr>classList := (classList s)(e := classList s e - {c})\<rparr>"
| "mutate (ClassList_add e c) s = s\<lparr>classList := (classList s)(e := insert c (classList s e))\<rparr>"
| "mutate (Set_highlightedRef r) s = s\<lparr>highlightedRef := r\<rparr>"

text \<open>The states a list of writes passes through, one after each write.\<close>

fun visited :: "'e mutation list \<Rightarrow> 'e overlay \<Rightarrow> 'e overlay list" where
  "visited [] s = []"
| "visited (m # ms) s = mutate m s # visited ms (mutate m s)"

definition clearHighlight_writes :: "'e overlay \<Rightarrow> 'e mutation list" where
  "clearHighlight_writes s =
     (case highlightedRef s of
        None \<Rightarrow> []
      | Some previous \<Rightarrow>
          map (ClassList_remove previous) highlightClasses @ [Set_highlightedRef None])"

definition clearHighlight :: "'e overlay \<Rightarrow> 'e overlay" where
  "clearHighlight s = fold mutate (clearHighlight_writes s) s"

definition applyHighlight_writes :: "'e overlay \<Rightarrow> 'e option \<Rightarrow> 'e mutation list" where
  "applyHighlight_writes s element =
     (if highlightedRef s = element then []
      else case element of
        None \<Rightarrow> clearHighlight_writes s
      | Some e \<Rightarrow>
          clearHighlight_writes s @ Set_highlightedRef (Some e) # map (ClassList_add e) highlightClasses)"

definition applyHighlight :: "'e option \<Rightarrow> 'e overlay \<Rightarrow> 'e overlay" where
  "applyHighlight element s = fold mutate (applyHighlight_writes s element) s"

text \<open>The states a sequence of applyHighlight calls passes through.\<close>

fun applyHighlight_calls :: "'e option list \<Rightarrow> 'e overlay \<Rightarrow> 'e overlay list" where
  "applyHighlight_calls [] s = []"
| "applyHighlight_calls (t # ts) s =
     visited (applyHighlight_writes s t) s @ applyHighlight_calls ts (applyHighlight t s)"

text \<open>An element carries the highlight marker when it has one of the highlight classes.\<close>

definition carries :: "'e overlay \<Rightarrow> 'e \<Rightarrow> bool" where
  "carries s e = (classList s e \<inter> set highlightClasses \<noteq> {})"

definition at_most_one_highlighted :: "'e overlay \<Rightarrow> bool" where
  "at_most_one_highlighted s = (\<forall>a b. carries s a \<and> carries s b \<longrightarrow> a = b)"

text \<open>
  The highlight classes are the overlay's own: an element that has one is the element
  \<open>highlightedRef\<close> holds. It is so when the component mounts on a document that does
  not use these classes itself.
\<close>

definition highlight_owned :: "'e overlay \<Rightarrow> bool" where
  "highlight_owned s = (\<forall>a. carries s a \<longrightarrow> highlightedRef s = Some a)"

text \<open>
  Two stronger forms, for the proofs: \<open>sole e\<close> when \<open>highlightedRef\<close> holds \<open>e\<close> and no
  other element carries the marker, \<open>unmarked\<close> when no element carries it.
\<close>

definition sole :: "'e \<Rightarrow> 'e overlay \<Rightarrow> bool" where
  "sole e s = (highlightedRef s = Some e \<and> (\<forall>a. carries s a \<longrightarrow> a = e))"

definition unmarked :: "'e overlay \<Rightarrow> bool" where
  "unmarked s = (\<forall>a. \<not> carries s a)"

subsection \<open>syncFromStorage\<close>

text \<open>A call that may throw: \<open>Throws\<close>, or \<open>Returns\<close> with the value.\<close>

datatype 'a attempt = Throws | Returns 'a

text \<open>
  localStorage: the stored items, or a storage whose reads throw (the browser denies
  the access).
\<close>

datatype storage = Unreadable | Items "(string \<times> string) list"

definition getItem :: "storage \<Rightarrow> string \<Rightarrow> string option attempt" where
  "getItem st k = (case st of Unreadable \<Rightarrow> Throws | Items kv \<Rightarrow> Returns (map_of kv k))"

text \<open>
  A \<open>string | null\<close> under a truth test: null and the empty string are falsy
  (\<open>None\<close>), any other string is truthy.
\<close>

definition truthy :: "string option \<Rightarrow> string option" where
  "truthy v = (case v of None \<Rightarrow> None | Some t \<Rightarrow> if t = [] then None else Some t)"

text \<open>The catch block, lines 68 to 73.\<close>

definition syncFromStorage_catch :: "'e overlay \<Rightarrow> 'e overlay" where
  "syncFromStorage_catch s =
     clearHighlight
       (s\<lparr>console_warnings := console_warnings s @ [''Gaze overlay storage sync''],
          enabled := False, position := None\<rparr>)"

text \<open>
  Lines 56 to 74. JSON.parse is the platform's and a parameter here: it throws on a
  text that is not JSON, or returns the value cast to \<open>Calibration\<close>.
\<close>

definition syncFromStorage ::
  "(string \<Rightarrow> calibration option attempt) \<Rightarrow> storage \<Rightarrow> 'e overlay \<Rightarrow> 'e overlay" where
  "syncFromStorage JSON_parse st s =
     (case getItem st BACKEND_URL_STORAGE_KEY of
        Throws \<Rightarrow> syncFromStorage_catch s
      | Returns backend \<Rightarrow>
          (let s1 = s\<lparr>backendRef := backend\<rparr> in
           case getItem st CALIBRATION_STORAGE_KEY of
             Throws \<Rightarrow> syncFromStorage_catch s1
           | Returns calibrationRaw \<Rightarrow>
               (case (case truthy calibrationRaw of
                        Some raw \<Rightarrow> JSON_parse raw
                      | None \<Rightarrow> Returns None) of
                  Throws \<Rightarrow> syncFromStorage_catch s1
                | Returns c \<Rightarrow>
                    (let s2 = s1\<lparr>calibrationRef := c\<rparr> in
                     case getItem st OVERLAY_ENABLED_KEY of
                       Throws \<Rightarrow> syncFromStorage_catch s2
                     | Returns flag \<Rightarrow>
                         (let overlayEnabled = (flag = Some ''true'');
                              canEnable = (overlayEnabled \<and> truthy (backendRef s2) \<noteq> None);
                              s3 = s2\<lparr>enabled := canEnable\<rparr>
                          in if \<not> canEnable then clearHighlight (s3\<lparr>position := None\<rparr>)
                             else s3)))))"

subsection \<open>pollGaze\<close>

text \<open>
  How the fetch of one cycle ends: the promise rejects (a network failure), or a
  response arrives with its \<open>ok\<close> flag and a body that \<open>response.json()\<close> decodes or
  rejects.
\<close>

datatype response_body = Not_json | Json gaze_sample

datatype fetch_result = Rejected | Response bool response_body

text \<open>
  The document, as far as pollGaze reads it. \<open>closest_activate\<close> is
  \<open>closest("[data-gaze-activate]")\<close>.
\<close>

record 'e document =
  elementFromPoint :: "jsnum \<Rightarrow> jsnum \<Rightarrow> 'e option"
  closest_activate :: "'e \<Rightarrow> 'e option"

text \<open>The catch block (lines 176 to 178) and the finally block (line 180).\<close>

definition pollGaze_catch :: "'e overlay \<Rightarrow> 'e overlay" where
  "pollGaze_catch s = applyHighlight None (s\<lparr>position := None\<rparr>)"

definition pollGaze_finally :: "'e overlay \<Rightarrow> 'e overlay" where
  "pollGaze_finally s = s\<lparr>pollingBusyRef := False\<rparr>"

text \<open>
  pollGaze is asynchronous and suspends at the fetch. \<open>pollGaze_start\<close> is the call up
  to there (lines 122 to 133): it returns the state and the URL it fetches, if it
  fetches. \<open>en\<close> is the \<open>enabled\<close> of the render whose effect made the closure, and the
  constructor \<open>URL\<close>, which throws on a base it cannot parse, is a parameter.
\<close>

definition pollGaze_start ::
  "(string \<Rightarrow> string \<Rightarrow> string attempt) \<Rightarrow> bool \<Rightarrow> 'e overlay \<Rightarrow> 'e overlay \<times> string option" where
  "pollGaze_start URL_new en s =
     (if \<not> en \<or> pollingBusyRef s then (s, None)
      else case truthy (backendRef s) of
        None \<Rightarrow> (s\<lparr>enabled := False\<rparr>, None)
      | Some backendUrl \<Rightarrow>
          (let s1 = s\<lparr>pollingBusyRef := True\<rparr> in
           case URL_new ''/api/gaze'' backendUrl of
             Throws \<Rightarrow> (pollGaze_finally (pollGaze_catch s1), None)
           | Returns url \<Rightarrow> (s1, Some url)))"

text \<open>
  \<open>pollGaze_settle\<close> is the rest of the call (lines 138 to 181), run on the state the
  component has when the fetch has ended. Between a response and its decoded body the
  call writes nothing.
\<close>

definition pollGaze_settle ::
  "window \<Rightarrow> 'e document \<Rightarrow> fetch_result \<Rightarrow> 'e overlay \<Rightarrow> 'e overlay" where
  "pollGaze_settle win doc result s =
     (case result of
        Rejected \<Rightarrow> pollGaze_finally (pollGaze_catch s)
      | Response ok body \<Rightarrow>
          (if \<not> ok then pollGaze_finally (pollGaze_catch s)
           else case body of
             Not_json \<Rightarrow> pollGaze_finally (pollGaze_catch s)
           | Json data \<Rightarrow>
               (case gaze_point win (calibrationRef s) data of
                  None \<Rightarrow> pollGaze_finally (applyHighlight None (s\<lparr>position := None\<rparr>))
                | Some (clampedX, clampedY) \<Rightarrow>
                    (let s1 = s\<lparr>position := Some (clampedX, clampedY)\<rparr>;
                         elementAtPoint = elementFromPoint doc clampedX clampedY;
                         activateTarget =
                           (case elementAtPoint of
                              None \<Rightarrow> None
                            | Some el \<Rightarrow> closest_activate doc el)
                     in pollGaze_finally (applyHighlight activateTarget s1)))))"

subsection \<open>The polling effect\<close>

text \<open>Lines 111 to 114 and 188 to 191: the interval is cleared when the ref holds one.\<close>

definition clear_poll_timer :: "'e overlay \<Rightarrow> 'e overlay" where
  "clear_poll_timer s =
     (case pollTimerRef s of
        None \<Rightarrow> s
      | Some h \<Rightarrow>
          if h \<noteq> 0 then s\<lparr>intervals := intervals s - {h}, pollTimerRef := None\<rparr> else s)"

text \<open>The effect's cleanup, lines 187 to 193.\<close>

definition poll_effect_cleanup :: "'e overlay \<Rightarrow> 'e overlay" where
  "poll_effect_cleanup s = (clear_poll_timer s)\<lparr>pollingBusyRef := False\<rparr>"

text \<open>
  The effect, lines 109 to 185, which React runs after a render in which \<open>enabled\<close> has
  changed (after the cleanup of the run before, where that run returned one). \<open>en\<close> is
  the \<open>enabled\<close> of that render; \<open>handle\<close> is what \<open>window.setInterval\<close> returns.
\<close>

definition poll_effect ::
  "(string \<Rightarrow> string \<Rightarrow> string attempt) \<Rightarrow> nat \<Rightarrow> bool \<Rightarrow> 'e overlay \<Rightarrow>
   'e overlay \<times> string option" where
  "poll_effect URL_new handle en s =
     (if \<not> en then
        (clearHighlight ((clear_poll_timer s)\<lparr>pollingBusyRef := False, position := None\<rparr>), None)
      else
        (case pollGaze_start URL_new en s of
           (s1, request) \<Rightarrow>
             (s1\<lparr>pollTimerRef := Some handle, intervals := insert handle (intervals s1)\<rparr>,
              request)))"

section \<open>Proofs\<close>

subsection \<open>The writes of clearHighlight and applyHighlight\<close>

lemma visited_append:
  "visited (xs @ ys) s = visited xs s @ visited ys (fold mutate xs s)"
  by (induction xs arbitrary: s) auto

lemma fold_remove_classList:
  "classList (fold mutate (map (ClassList_remove p) cs) s) =
     (classList s)(p := classList s p - set cs)"
  by (induction cs arbitrary: s) (auto simp: fun_eq_iff)

lemma fold_remove_ref:
  "highlightedRef (fold mutate (map (ClassList_remove p) cs) s) = highlightedRef s"
  by (induction cs arbitrary: s) auto

lemma fold_add_classList:
  "classList (fold mutate (map (ClassList_add p) cs) s) =
     (classList s)(p := classList s p \<union> set cs)"
  by (induction cs arbitrary: s) (auto simp: fun_eq_iff)

lemma fold_add_ref:
  "highlightedRef (fold mutate (map (ClassList_add p) cs) s) = highlightedRef s"
  by (induction cs arbitrary: s) auto

lemma owned_remove:
  "highlight_owned s \<Longrightarrow> highlight_owned (mutate (ClassList_remove p c) s)"
  by (auto simp: highlight_owned_def carries_def split: if_splits)

lemma visited_remove_owned:
  "highlight_owned s \<Longrightarrow> t \<in> set (visited (map (ClassList_remove p) cs) s) \<Longrightarrow> highlight_owned t"
proof (induction cs arbitrary: s)
  case Nil
  then show ?case by simp
next
  case (Cons c cs)
  then show ?case using owned_remove [of s p c] by auto
qed

lemma sole_owned: "sole e s \<Longrightarrow> highlight_owned s"
  by (auto simp: sole_def highlight_owned_def)

lemma sole_add: "sole e s \<Longrightarrow> sole e (mutate (ClassList_add e c) s)"
  by (auto simp: sole_def carries_def split: if_splits)

lemma visited_add_sole:
  "sole e s \<Longrightarrow> t \<in> set (visited (map (ClassList_add e) cs) s) \<Longrightarrow> sole e t"
proof (induction cs arbitrary: s)
  case Nil
  then show ?case by simp
next
  case (Cons c cs)
  then show ?case using sole_add [of e s c] by auto
qed

lemma clear_unmarked:
  assumes "highlight_owned s" and "highlightedRef s = Some p"
  shows "unmarked (fold mutate (map (ClassList_remove p) highlightClasses) s)"
  using assms
  by (auto simp: unmarked_def highlight_owned_def carries_def fold_remove_classList)

lemma unmarked_set_ref: "unmarked s \<Longrightarrow> unmarked (s\<lparr>highlightedRef := r\<rparr>)"
  by (simp add: unmarked_def carries_def)

lemma unmarked_owned: "unmarked s \<Longrightarrow> highlight_owned s"
  by (simp add: unmarked_def highlight_owned_def)

lemma unmarked_sole: "unmarked s \<Longrightarrow> sole e (s\<lparr>highlightedRef := Some e\<rparr>)"
  by (simp add: unmarked_def sole_def carries_def)

lemma clearHighlight_visited_owned:
  assumes "highlight_owned s" and "t \<in> set (visited (clearHighlight_writes s) s)"
  shows "highlight_owned t"
proof (cases "highlightedRef s")
  case None
  with assms show ?thesis by (simp add: clearHighlight_writes_def)
next
  case (Some p)
  with assms(2) consider
    "t \<in> set (visited (map (ClassList_remove p) highlightClasses) s)"
    | "t = (fold mutate (map (ClassList_remove p) highlightClasses) s)\<lparr>highlightedRef := None\<rparr>"
    by (auto simp: clearHighlight_writes_def visited_append)
  then show ?thesis
  proof cases
    case 1
    with assms(1) show ?thesis by (rule visited_remove_owned)
  next
    case 2
    with clear_unmarked [OF assms(1) Some] show ?thesis
      by (simp add: unmarked_owned unmarked_set_ref)
  qed
qed

lemma clearHighlight_unmarked:
  assumes "highlight_owned s"
  shows "unmarked (clearHighlight s)"
proof (cases "highlightedRef s")
  case None
  with assms show ?thesis
    by (auto simp: clearHighlight_def clearHighlight_writes_def unmarked_def highlight_owned_def)
next
  case (Some p)
  with clear_unmarked [OF assms Some] show ?thesis
    by (simp add: clearHighlight_def clearHighlight_writes_def unmarked_set_ref)
qed

lemma clearHighlight_ref: "highlightedRef (clearHighlight s) = None"
  by (cases "highlightedRef s")
     (simp_all add: clearHighlight_def clearHighlight_writes_def)

lemma applyHighlight_visited_owned:
  assumes "highlight_owned s" and "t \<in> set (visited (applyHighlight_writes s x) s)"
  shows "highlight_owned t"
proof (cases "highlightedRef s = x")
  case True
  with assms show ?thesis by (simp add: applyHighlight_writes_def)
next
  case False
  show ?thesis
  proof (cases x)
    case None
    with False have "applyHighlight_writes s x = clearHighlight_writes s"
      by (auto simp: applyHighlight_writes_def)
    with assms show ?thesis
      by (simp add: clearHighlight_visited_owned)
  next
    case (Some e)
    let ?c = "clearHighlight s"
    from Some False assms(2) consider
      "t \<in> set (visited (clearHighlight_writes s) s)"
      | "t = ?c\<lparr>highlightedRef := Some e\<rparr>"
      | "t \<in> set (visited (map (ClassList_add e) highlightClasses) (?c\<lparr>highlightedRef := Some e\<rparr>))"
      by (auto simp: applyHighlight_writes_def visited_append clearHighlight_def)
    then show ?thesis
    proof cases
      case 1
      with assms(1) show ?thesis by (rule clearHighlight_visited_owned)
    next
      case 2
      with sole_owned [OF unmarked_sole [OF clearHighlight_unmarked [OF assms(1)], of e]]
      show ?thesis by simp
    next
      case 3
      from clearHighlight_unmarked [OF assms(1)]
      have "sole e (?c\<lparr>highlightedRef := Some e\<rparr>)" by (rule unmarked_sole)
      from visited_add_sole [OF this 3] show ?thesis by (rule sole_owned)
    qed
  qed
qed

lemma fold_last_visited:
  "fold mutate ms s = last (s # visited ms s)"
  by (induction ms arbitrary: s) simp_all

lemma applyHighlight_owned:
  assumes "highlight_owned s"
  shows "highlight_owned (applyHighlight x s)"
proof (cases "applyHighlight_writes s x = []")
  case True
  with assms show ?thesis by (simp add: applyHighlight_def)
next
  case False
  then have "visited (applyHighlight_writes s x) s \<noteq> []"
    by (cases "applyHighlight_writes s x") auto
  then have "last (visited (applyHighlight_writes s x) s) \<in> set (visited (applyHighlight_writes s x) s)"
    by (rule last_in_set)
  with \<open>visited (applyHighlight_writes s x) s \<noteq> []\<close>
  have "applyHighlight x s \<in> set (visited (applyHighlight_writes s x) s)"
    by (simp add: applyHighlight_def fold_last_visited)
  with assms show ?thesis by (rule applyHighlight_visited_owned)
qed

lemma applyHighlight_calls_owned:
  "highlight_owned s \<Longrightarrow> t \<in> set (applyHighlight_calls xs s) \<Longrightarrow> highlight_owned t"
proof (induction xs arbitrary: s)
  case Nil
  then show ?case by simp
next
  case (Cons x xs)
  then show ?case
    using applyHighlight_visited_owned [of s t x] applyHighlight_owned [of s x] by auto
qed

lemma owned_at_most_one: "highlight_owned s \<Longrightarrow> at_most_one_highlighted s"
  unfolding highlight_owned_def at_most_one_highlighted_def
  by (metis option.inject)

lemma applyHighlight_ref: "highlightedRef (applyHighlight x s) = x"
proof (cases "highlightedRef s = x")
  case True
  then show ?thesis by (simp add: applyHighlight_def applyHighlight_writes_def)
next
  case False
  then show ?thesis
    using clearHighlight_ref [of s]
    by (cases x) (simp_all add: applyHighlight_def applyHighlight_writes_def clearHighlight_def fold_add_ref)
qed

subsection \<open>Rounding to a double\<close>

lemma binary_exponent_le_sum: "binary_exponent ks b \<le> sum_list ks"
  by (induction ks arbitrary: b) (auto intro: trans_le_add2)

lemma binary_exponent_lower:
  "0 < binary_exponent ks b \<Longrightarrow> 2 ^ binary_exponent ks b \<le> b"
proof (induction ks arbitrary: b)
  case Nil
  then show ?case by simp
next
  case (Cons k ks)
  show ?case
  proof (cases "2 ^ k \<le> b")
    case True
    show ?thesis
    proof (cases "0 < binary_exponent ks (b / 2 ^ k)")
      case pos: True
      from Cons.IH [OF pos] have "2 ^ binary_exponent ks (b / 2 ^ k) * 2 ^ k \<le> b"
        by (simp add: pos_le_divide_eq)
      with True show ?thesis by (simp add: power_add mult.commute)
    next
      case False
      with True show ?thesis by simp
    qed
  next
    case False
    with Cons show ?thesis by simp
  qed
qed

lemma round_half_even_of_int: "round_half_even (of_int i) = i"
  by (simp add: round_half_even_def)

lemma round_half_even_error: "\<bar>of_int (round_half_even t) - t\<bar> \<le> 1 / 2"
  unfolding round_half_even_def Let_def
  by (auto simp: abs_le_iff; linarith)

lemma round_half_even_ge: "of_int j \<le> t \<Longrightarrow> j \<le> round_half_even t"
proof -
  assume "of_int j \<le> t"
  then have "j \<le> \<lfloor>t\<rfloor>" by (simp add: le_floor_iff)
  then show ?thesis
    unfolding round_half_even_def Let_def by auto
qed

lemma round_binary_exact:
  assumes "representable s p t r"
  shows "round_binary s p t ks r = (if r = 0 then Fin 0 else Fin r)"
proof -
  from assms obtain M :: int and E :: nat where
    M: "\<bar>M\<bar> < 2 ^ (p + 1)" and E: "E + p + 1 \<le> s + t" and r: "r = of_int M * 2 ^ E / 2 ^ s"
    unfolding representable_def by blast
  define n where "n = \<bar>r\<bar> * 2 ^ s"
  define k where "k = binary_exponent ks (n / 2 ^ p)"
  have n: "n = of_int \<bar>M\<bar> * 2 ^ E"
    by (simp add: n_def r abs_mult)
  have kE: "k \<le> E"
  proof (cases "0 < k")
    case True
    then have "2 ^ k \<le> n / 2 ^ p"
      unfolding k_def by (rule binary_exponent_lower)
    also have "n / 2 ^ p < 2 ^ (E + 1)"
    proof -
      from M have "of_int \<bar>M\<bar> < (2::real) ^ (p + 1)"
        by (metis of_int_less_numeral_power_cancel_iff)
      then have "n < 2 ^ (p + 1) * 2 ^ E"
        by (simp add: n)
      then show ?thesis by (simp add: pos_divide_less_eq power_add ac_simps)
    qed
    finally have lt: "(2::real) ^ k < 2 ^ (E + 1)" .
    show ?thesis
    proof (rule ccontr)
      assume "\<not> k \<le> E"
      then have "E + 1 \<le> k" by simp
      then have "(2::real) ^ (E + 1) \<le> 2 ^ k" by (intro power_increasing) simp_all
      with lt show False by simp
    qed
  next
    case False
    then show ?thesis by simp
  qed
  from kE obtain j where Ej: "E = k + j"
    by (auto simp: le_iff_add)
  have x: "n / 2 ^ k = of_int (\<bar>M\<bar> * 2 ^ j)"
    by (simp add: n Ej power_add)
  have m: "round_half_even (n / 2 ^ k) = \<bar>M\<bar> * 2 ^ j"
    unfolding x by (rule round_half_even_of_int)
  have v: "of_int (round_half_even (n / 2 ^ k)) * 2 ^ k / 2 ^ s = \<bar>r\<bar>"
    unfolding m by (simp add: r abs_mult Ej power_add)
  have small: "\<bar>r\<bar> < 2 ^ t"
  proof -
    from M have "of_int \<bar>M\<bar> < (2::real) ^ (p + 1)"
      by (metis of_int_less_numeral_power_cancel_iff)
    then have "of_int \<bar>M\<bar> * (2::real) ^ E < 2 ^ (p + 1) * 2 ^ E" by simp
    also have "\<dots> = 2 ^ (E + p + 1)" by (simp add: power_add)
    also from E have "\<dots> \<le> (2::real) ^ (s + t)" by (intro power_increasing) simp_all
    finally have "of_int \<bar>M\<bar> * (2::real) ^ E / 2 ^ s < 2 ^ t"
      by (simp add: pos_divide_less_eq power_add mult.commute)
    then show ?thesis by (simp add: r abs_mult)
  qed
  have zero: "round_half_even (n / 2 ^ k) = 0 \<longleftrightarrow> r = 0"
    unfolding m by (simp add: r)
  show ?thesis
    unfolding round_binary_def Let_def
    unfolding n_def [symmetric] k_def [symmetric] v
    using small zero by (auto simp: signed_zero_def)
qed

lemma round_binary_overflow:
  assumes "2 ^ t \<le> \<bar>r\<bar>" and "sum_list ks \<le> s + t"
  shows "round_binary s p t ks r = signed_inf (r < 0)"
proof -
  define n where "n = \<bar>r\<bar> * 2 ^ s"
  define k where "k = binary_exponent ks (n / 2 ^ p)"
  have "k \<le> s + t"
    unfolding k_def using binary_exponent_le_sum assms(2) by (rule order_trans)
  then obtain j where j: "s + t = k + j"
    by (auto simp: le_iff_add)
  from assms(1) have "(2::real) ^ t * 2 ^ s \<le> n"
    by (simp add: n_def)
  then have "(2::real) ^ j * 2 ^ k \<le> n"
    using j by (simp add: power_add [symmetric] ac_simps)
  then have "of_int (2 ^ j) \<le> n / 2 ^ k"
    by (simp add: pos_le_divide_eq)
  then have "2 ^ j \<le> round_half_even (n / 2 ^ k)"
    by (rule round_half_even_ge)
  then have "(2::real) ^ j \<le> of_int (round_half_even (n / 2 ^ k))"
    by (metis of_int_le_iff of_int_numeral of_int_power)
  then have "(2::real) ^ j * 2 ^ k \<le> of_int (round_half_even (n / 2 ^ k)) * 2 ^ k"
    by simp
  moreover have "(2::real) ^ j * 2 ^ k = 2 ^ t * 2 ^ s"
    using j by (simp add: power_add [symmetric] ac_simps)
  ultimately have "(2::real) ^ t \<le> of_int (round_half_even (n / 2 ^ k)) * 2 ^ k / 2 ^ s"
    by (simp add: pos_le_divide_eq)
  then show ?thesis
    unfolding round_binary_def Let_def n_def [symmetric] k_def [symmetric] by simp
qed

lemma round_binary_normal:
  assumes "2 ^ p \<le> \<bar>r\<bar> * 2 ^ s" and "\<bar>r\<bar> * (1 + 1 / 2 ^ (p + 1)) < 2 ^ t"
  shows "\<exists>v. round_binary s p t ks r = Fin v \<and> \<bar>v - r\<bar> \<le> \<bar>r\<bar> / 2 ^ (p + 1)"
proof -
  define n where "n = \<bar>r\<bar> * 2 ^ s"
  define k where "k = binary_exponent ks (n / 2 ^ p)"
  define x where "x = n / 2 ^ k"
  define m where "m = round_half_even x"
  define v :: real where "v = of_int m * 2 ^ k / 2 ^ s"
  have r: "\<bar>r\<bar> = x * 2 ^ k / 2 ^ s"
    by (simp add: x_def n_def)
  have xp: "2 ^ p \<le> x"
  proof (cases "0 < k")
    case True
    then have "2 ^ k \<le> n / 2 ^ p"
      unfolding k_def by (rule binary_exponent_lower)
    then show ?thesis
      by (simp add: x_def pos_le_divide_eq ac_simps)
  next
    case False
    with assms(1) show ?thesis by (simp add: x_def n_def)
  qed
  have "(1::real) \<le> 2 ^ p" by simp
  from this xp have "1 \<le> x" by (rule order_trans)
  then have "of_int 1 \<le> x" by simp
  then have m1: "1 \<le> m"
    unfolding m_def by (rule round_half_even_ge)
  have "\<bar>of_int m - x\<bar> \<le> 1 / 2"
    unfolding m_def by (rule round_half_even_error)
  also from xp have "1 / 2 \<le> x / 2 ^ (p + 1)"
    by (simp add: pos_le_divide_eq)
  finally have mx: "\<bar>of_int m - x\<bar> \<le> x / 2 ^ (p + 1)" .
  have "\<bar>v - \<bar>r\<bar>\<bar> = \<bar>of_int m - x\<bar> * (2 ^ k / 2 ^ s)"
    by (simp add: v_def r abs_mult diff_divide_distrib [symmetric] left_diff_distrib [symmetric]
        abs_divide)
  also from mx have "\<dots> \<le> x / 2 ^ (p + 1) * (2 ^ k / 2 ^ s)"
    by (intro mult_right_mono) simp_all
  also have "\<dots> = \<bar>r\<bar> / 2 ^ (p + 1)"
    by (simp add: r)
  finally have near: "\<bar>v - \<bar>r\<bar>\<bar> \<le> \<bar>r\<bar> / 2 ^ (p + 1)" .
  then have "v \<le> \<bar>r\<bar> * (1 + 1 / 2 ^ (p + 1))"
    by (simp add: abs_le_iff algebra_simps)
  with assms(2) have small: "\<not> 2 ^ t \<le> v" by simp
  from m1 have m0: "m \<noteq> 0" by simp
  have res: "round_binary s p t ks r = Fin (if r < 0 then - v else v)"
    unfolding round_binary_def Let_def n_def [symmetric] k_def [symmetric] x_def [symmetric]
      m_def [symmetric] v_def [symmetric]
    using small m0 by simp
  have "\<bar>(if r < 0 then - v else v) - r\<bar> = \<bar>v - \<bar>r\<bar>\<bar>"
    by (auto simp: abs_if)
  with near res show ?thesis by simp
qed

lemma round_double_exact: "is_double r \<Longrightarrow> round_double r = Fin r"
  unfolding is_double_def round_double_def by (simp add: round_binary_exact)

lemma round_double_overflow: "2 ^ 1024 \<le> \<bar>r\<bar> \<Longrightarrow> round_double r = signed_inf (r < 0)"
  unfolding round_double_def by (rule round_binary_overflow) simp_all

lemma round_double_normal:
  "2 ^ 52 \<le> \<bar>r\<bar> * 2 ^ 1074 \<Longrightarrow> \<bar>r\<bar> * (1 + 1 / 2 ^ 53) < 2 ^ 1024 \<Longrightarrow>
   \<exists>v. round_double r = Fin v \<and> \<bar>v - r\<bar> \<le> \<bar>r\<bar> / 2 ^ 53"
  unfolding round_double_def using round_binary_normal [of 52 r 1074 1024] by simp

lemma is_double_dyadic:
  assumes "\<bar>m\<bar> < 2 ^ 53" and "j \<le> 1074"
  shows "is_double (of_int m / 2 ^ j)"
proof -
  from assms(2) obtain e where e: "1074 = j + e"
    by (auto simp: le_iff_add)
  then have "e + 52 + 1 \<le> 1074 + 1024" by simp
  moreover have "of_int m / 2 ^ j = of_int m * 2 ^ e / (2::real) ^ 1074"
    unfolding e by (simp add: power_add)
  ultimately show ?thesis
    unfolding is_double_def representable_def using assms(1) by auto
qed

lemma two_roundings:
  assumes q1: "2 ^ 53 \<le> \<bar>q\<bar> * 2 ^ 1074" and q2: "\<bar>q\<bar> * 2 \<le> 2 ^ 1024"
    and p1: "2 ^ 53 \<le> \<bar>a * q\<bar> * 2 ^ 1074" and p2: "\<bar>a * q\<bar> * 2 \<le> 2 ^ 1024"
  shows "\<exists>sv pv. round_double q = Fin sv \<and> sv \<noteq> 0 \<and> round_double (a * sv) = Fin pv \<and>
           \<bar>pv - a * q\<bar> \<le> \<bar>a * q\<bar> * 3 / 2 ^ 53"
proof -
  from q1 have qpos: "0 < \<bar>q\<bar>"
    by (cases "q = 0") simp_all
  from p1 have apos: "0 < \<bar>a * q\<bar>"
    by (cases "a * q = 0") simp_all
  have "2 ^ 52 \<le> \<bar>q\<bar> * 2 ^ 1074"
    using q1 by simp
  moreover have "\<bar>q\<bar> * (1 + 1 / 2 ^ 53) < 2 ^ 1024"
    using q2 qpos by simp
  ultimately obtain sv where sv: "round_double q = Fin sv" and svq: "\<bar>sv - q\<bar> \<le> \<bar>q\<bar> / 2 ^ 53"
    using round_double_normal [of q] by blast
  have "\<bar>a\<bar> * \<bar>sv - q\<bar> \<le> \<bar>a\<bar> * (\<bar>q\<bar> / 2 ^ 53)"
    using svq by (intro mult_left_mono) simp_all
  then have d: "\<bar>a * sv - a * q\<bar> \<le> \<bar>a * q\<bar> / 2 ^ 53"
    by (simp add: abs_mult right_diff_distrib [symmetric])
  then have lo: "\<bar>a * q\<bar> - \<bar>a * q\<bar> / 2 ^ 53 \<le> \<bar>a * sv\<bar>"
    and hi: "\<bar>a * sv\<bar> \<le> \<bar>a * q\<bar> + \<bar>a * q\<bar> / 2 ^ 53"
    by linarith+
  have "2 ^ 52 \<le> \<bar>a * sv\<bar> * 2 ^ 1074"
    using lo p1 by simp
  moreover have "\<bar>a * sv\<bar> * (1 + 1 / 2 ^ 53) < 2 ^ 1024"
    using hi p2 apos by simp
  ultimately obtain pv where pv: "round_double (a * sv) = Fin pv"
    and pvs: "\<bar>pv - a * sv\<bar> \<le> \<bar>a * sv\<bar> / 2 ^ 53"
    using round_double_normal [of "a * sv"] by blast
  from apos have "\<bar>a * q\<bar> / 2 ^ 53 < \<bar>a * q\<bar>" by simp
  with lo have "0 < \<bar>a * sv\<bar>" by linarith
  then have "sv \<noteq> 0" by auto
  moreover have "\<bar>pv - a * q\<bar> \<le> \<bar>a * q\<bar> * 3 / 2 ^ 53"
  proof -
    define P D Y X T where "P = \<bar>pv - a * sv\<bar>" and "D = \<bar>a * sv - a * q\<bar>"
      and "Y = \<bar>a * sv\<bar>" and "X = \<bar>a * q\<bar>" and "T = \<bar>pv - a * q\<bar>"
    have "T \<le> P + D"
      unfolding T_def P_def D_def by linarith
    moreover from pvs d hi have "P \<le> Y / 2 ^ 53" "D \<le> X / 2 ^ 53" "Y \<le> X + X / 2 ^ 53"
      unfolding P_def D_def Y_def X_def by simp_all
    moreover have "0 \<le> X"
      unfolding X_def by simp
    ultimately have "T \<le> X * 3 / 2 ^ 53"
      by simp
    then show ?thesis
      unfolding T_def X_def .
  qed
  ultimately show ?thesis using sv pv by blast
qed

lemma round_binary_not_NaN: "round_binary s p t ks r \<noteq> NaN"
  by (simp add: round_binary_def Let_def signed_inf_def signed_zero_def)

lemma round_double_not_NaN: "round_double r \<noteq> NaN"
  unfolding round_double_def by (rule round_binary_not_NaN)

lemma round_double_int: "\<bar>m\<bar> < 2 ^ 53 \<Longrightarrow> round_double (of_int m) = Fin (of_int m)"
  using is_double_dyadic [of m 0] by (simp add: round_double_exact)

lemma round_double_numeral:
  "numeral w < (2::int) ^ 53 \<Longrightarrow> round_double (numeral w) = Fin (numeral w)"
  using round_double_int [of "numeral w"] by simp

lemma round_double_0: "round_double 0 = Fin 0"
  using round_double_int [of 0] by simp

lemma round_double_3_2: "round_double (3 / 2) = Fin (3 / 2)"
  using is_double_dyadic [of 3 1] by (simp add: round_double_exact)

lemma in_normal_range_round:
  assumes "in_normal_range r"
  shows "\<exists>v. round_double r = Fin v \<and> \<bar>v - r\<bar> \<le> \<bar>r\<bar> / 2 ^ 53"
proof -
  from assms have a: "2 ^ 53 \<le> \<bar>r\<bar> * 2 ^ 1074" and b: "\<bar>r\<bar> * 2 \<le> 2 ^ 1024"
    by (simp_all add: in_normal_range_def)
  from a have "0 < \<bar>r\<bar>"
    by (cases "r = 0") simp_all
  with b have "\<bar>r\<bar> * (1 + 1 / 2 ^ 53) < 2 ^ 1024" by simp
  moreover from a have "2 ^ 52 \<le> \<bar>r\<bar> * 2 ^ 1074" by simp
  ultimately show ?thesis by (rule round_double_normal [rotated])
qed

subsection \<open>Arithmetic of the mapping\<close>

lemma clamped_Fin: "clamped d (Fin r) = Fin (max 12 (min (of_int d - 12) r))"
  by (auto simp: clamped_def Math_max_def Math_min_def of_long_def)

lemma clamped_signed_zero: "clamped d (signed_zero b) = Fin (max 12 (min (of_int d - 12) 0))"
  by (auto simp: clamped_def Math_max_def Math_min_def of_long_def signed_zero_def)

lemma clamped_PInf: "clamped d PInf = Fin (max 12 (of_int d - 12))"
  by (auto simp: clamped_def Math_max_def Math_min_def of_long_def)

lemma clamped_NInf: "clamped d NInf = Fin 12"
  by (auto simp: clamped_def Math_max_def Math_min_def of_long_def)

lemma clamped_lower:
  "p \<noteq> NaN \<Longrightarrow> \<exists>r. clamped d p = Fin r \<and> 12 \<le> r \<and> (d < 24 \<longrightarrow> r = 12)"
  by (cases p) (auto simp: clamped_def Math_max_def Math_min_def of_long_def)

lemma js_mul_Fin:
  "js_mul (Fin a) (Fin b) =
     (if a = 0 \<or> b = 0 then signed_zero ((a < 0) \<noteq> (b < 0)) else round_double (a * b))"
  by (simp add: js_mul_def)

lemma js_div_Fin:
  "c \<noteq> 0 \<Longrightarrow> js_div (Fin a) (Fin c) =
     (if a = 0 then signed_zero ((a < 0) \<noteq> (c < 0)) else round_double (a / c))"
  by (simp add: js_div_def)

lemma js_mul_signed_zero: "js_mul (Fin a) (signed_zero z) = signed_zero ((a < 0) \<noteq> z)"
  by (simp add: js_mul_def signed_zero_def)

lemma js_mul_not_NaN: "js_mul (Fin a) (Fin v) \<noteq> NaN"
  by (simp add: js_mul_Fin signed_zero_def round_double_not_NaN)

lemma clamped_mul:
  "clamped n (js_mul (Fin a) (Fin b)) = clamped n (round_double (a * b))"
  by (auto simp: js_mul_Fin clamped_signed_zero clamped_Fin round_double_0)

text \<open>
  The calibrated branch, \<open>x * (w / c)\<close>: where the quotient and the product are doubles
  the result is exact; where both lie in the normal range it is a double within three
  units of \<open>2 ^ - 53\<close> of the exact value, relatively.
\<close>

lemma scaled_exact:
  assumes "c \<noteq> 0" and "is_double (w / c)" and "is_double (a * (w / c))"
  shows "js_mul (Fin a) (js_div (Fin w) (Fin c)) \<noteq> NaN"
    and "clamped n (js_mul (Fin a) (js_div (Fin w) (Fin c))) =
           Fin (max 12 (min (of_int n - 12) (a * w / c)))"
proof -
  have q: "js_div (Fin w) (Fin c) = (if w = 0 then signed_zero (c < 0) else Fin (w / c))"
    using assms(1,2) by (simp add: js_div_Fin round_double_exact)
  show "js_mul (Fin a) (js_div (Fin w) (Fin c)) \<noteq> NaN"
  proof (cases "w = 0")
    case True
    then have "js_mul (Fin a) (js_div (Fin w) (Fin c)) = signed_zero ((a < 0) \<noteq> (c < 0))"
      unfolding q by (simp add: js_mul_signed_zero)
    then show ?thesis by (simp add: signed_zero_def)
  next
    case False
    then show ?thesis unfolding q by (simp add: js_mul_not_NaN)
  qed
  show "clamped n (js_mul (Fin a) (js_div (Fin w) (Fin c))) =
      Fin (max 12 (min (of_int n - 12) (a * w / c)))"
  proof (cases "w = 0")
    case True
    then show ?thesis
      unfolding q by (simp add: js_mul_signed_zero clamped_signed_zero)
  next
    case False
    with assms(3) show ?thesis
      unfolding q by (simp add: clamped_mul round_double_exact clamped_Fin)
  qed
qed

lemma scaled_near:
  assumes "in_normal_range (w / c)" and "in_normal_range (a * (w / c))"
  shows "\<exists>p. js_mul (Fin a) (js_div (Fin w) (Fin c)) = Fin p \<and>
           \<bar>p - a * w / c\<bar> \<le> \<bar>a * w / c\<bar> * 3 / 2 ^ 53"
proof -
  from assms have r: "2 ^ 53 \<le> \<bar>w / c\<bar> * 2 ^ 1074" "\<bar>w / c\<bar> * 2 \<le> 2 ^ 1024"
    "2 ^ 53 \<le> \<bar>a * (w / c)\<bar> * 2 ^ 1074" "\<bar>a * (w / c)\<bar> * 2 \<le> 2 ^ 1024"
    by (simp_all add: in_normal_range_def)
  have "w / c \<noteq> 0"
  proof
    assume z: "w / c = 0"
    from r(1) show False unfolding z by simp
  qed
  then have c: "c \<noteq> 0" and w: "w \<noteq> 0" by auto
  have "a * (w / c) \<noteq> 0"
  proof
    assume z: "a * (w / c) = 0"
    from r(3) show False unfolding z by simp
  qed
  then have a: "a \<noteq> 0" by auto
  from two_roundings [OF r] obtain sv pv where
    sv: "round_double (w / c) = Fin sv" "sv \<noteq> 0" and
    pv: "round_double (a * sv) = Fin pv" "\<bar>pv - a * (w / c)\<bar> \<le> \<bar>a * (w / c)\<bar> * 3 / 2 ^ 53"
    by blast
  have "js_mul (Fin a) (js_div (Fin w) (Fin c)) = Fin pv"
    using c w a sv pv(1) by (simp add: js_div_Fin js_mul_Fin)
  with pv(2) show ?thesis by simp
qed

lemma gaze_point_None_iff:
  "gaze_point win calib data = None \<longleftrightarrow>
     (fst (gaze_px_py win calib data) = None \<or> fst (gaze_px_py win calib data) = Some NaN \<or>
      snd (gaze_px_py win calib data) = None \<or> snd (gaze_px_py win calib data) = Some NaN)"
  by (cases "gaze_px_py win calib data")
     (auto simp: gaze_point_def Number_isNaN_def split: option.splits)

lemma gaze_point_Some:
  "gaze_px_py win calib data = (Some px, Some py) \<Longrightarrow> px \<noteq> NaN \<Longrightarrow> py \<noteq> NaN \<Longrightarrow>
   gaze_point win calib data = Some (clamped (innerWidth win) px, clamped (innerHeight win) py)"
  by (simp add: gaze_point_def Number_isNaN_def)

lemma gaze_point_SomeD:
  "gaze_point win calib data = Some (X, Y) \<Longrightarrow>
   \<exists>px py. px \<noteq> NaN \<and> py \<noteq> NaN \<and> X = clamped (innerWidth win) px \<and> Y = clamped (innerHeight win) py"
  by (cases "gaze_px_py win calib data")
     (auto simp: gaze_point_def Number_isNaN_def split: option.splits if_splits)

subsection \<open>What the writes leave as it is\<close>

lemma mutate_frame:
  "enabled (mutate m s) = enabled s"
  "position (mutate m s) = position s"
  "backendRef (mutate m s) = backendRef s"
  "calibrationRef (mutate m s) = calibrationRef s"
  "pollTimerRef (mutate m s) = pollTimerRef s"
  "pollingBusyRef (mutate m s) = pollingBusyRef s"
  "intervals (mutate m s) = intervals s"
  "console_warnings (mutate m s) = console_warnings s"
  by (cases m; simp)+

lemma fold_mutate_frame:
  "enabled (fold mutate ms s) = enabled s"
  "position (fold mutate ms s) = position s"
  "backendRef (fold mutate ms s) = backendRef s"
  "calibrationRef (fold mutate ms s) = calibrationRef s"
  "pollTimerRef (fold mutate ms s) = pollTimerRef s"
  "pollingBusyRef (fold mutate ms s) = pollingBusyRef s"
  "intervals (fold mutate ms s) = intervals s"
  "console_warnings (fold mutate ms s) = console_warnings s"
  by (induction ms arbitrary: s; simp add: mutate_frame)+

lemma clearHighlight_frame:
  "enabled (clearHighlight s) = enabled s"
  "position (clearHighlight s) = position s"
  "backendRef (clearHighlight s) = backendRef s"
  "calibrationRef (clearHighlight s) = calibrationRef s"
  "pollTimerRef (clearHighlight s) = pollTimerRef s"
  "pollingBusyRef (clearHighlight s) = pollingBusyRef s"
  "intervals (clearHighlight s) = intervals s"
  "console_warnings (clearHighlight s) = console_warnings s"
  by (simp_all add: clearHighlight_def fold_mutate_frame)

lemma applyHighlight_frame:
  "enabled (applyHighlight x s) = enabled s"
  "position (applyHighlight x s) = position s"
  "backendRef (applyHighlight x s) = backendRef s"
  "calibrationRef (applyHighlight x s) = calibrationRef s"
  "pollTimerRef (applyHighlight x s) = pollTimerRef s"
  "pollingBusyRef (applyHighlight x s) = pollingBusyRef s"
  "intervals (applyHighlight x s) = intervals s"
  "console_warnings (applyHighlight x s) = console_warnings s"
  by (simp_all add: applyHighlight_def fold_mutate_frame)

lemma applyHighlight_None_unmarked:
  assumes "highlight_owned s"
  shows "unmarked (applyHighlight None s)"
proof (cases "highlightedRef s")
  case None
  with assms show ?thesis
    by (auto simp: applyHighlight_def applyHighlight_writes_def unmarked_def highlight_owned_def)
next
  case (Some p)
  then have "applyHighlight None s = clearHighlight s"
    by (simp add: applyHighlight_def applyHighlight_writes_def clearHighlight_def)
  with clearHighlight_unmarked [OF assms] show ?thesis by simp
qed

text \<open>What the catch and the early return of pollGaze leave, after the finally block.\<close>

lemma no_signal_state:
  assumes "t = pollGaze_finally (applyHighlight None (s\<lparr>position := None\<rparr>))"
  shows "position t = None" and "highlightedRef t = None" and "\<not> pollingBusyRef t"
    and "highlight_owned s \<Longrightarrow> unmarked t"
proof -
  show "position t = None" "highlightedRef t = None" "\<not> pollingBusyRef t"
    by (simp_all add: assms pollGaze_finally_def applyHighlight_frame applyHighlight_ref)
  assume "highlight_owned s"
  then have "highlight_owned (s\<lparr>position := None\<rparr>)"
    by (simp add: highlight_owned_def carries_def)
  then have "unmarked (applyHighlight None (s\<lparr>position := None\<rparr>))"
    by (rule applyHighlight_None_unmarked)
  then show "unmarked t"
    by (simp add: assms pollGaze_finally_def unmarked_def carries_def)
qed

lemma pollGaze_settle_no_point:
  "gaze_point win (calibrationRef s) data = None \<Longrightarrow>
   pollGaze_settle win doc (Response True (Json data)) s =
     pollGaze_finally (applyHighlight None (s\<lparr>position := None\<rparr>))"
  by (simp add: pollGaze_settle_def)

lemma pollGaze_settle_position:
  "position (pollGaze_settle win doc (Response True (Json data)) s) =
     gaze_point win (calibrationRef s) data"
  by (simp add: pollGaze_settle_def pollGaze_finally_def applyHighlight_frame Let_def
      split: option.splits prod.splits)

subsection \<open>The mapping of a sample to a point\<close>

text \<open>
  Claim C1 says that a calibrated sample maps to \<open>(x * innerWidth / width, ...)\<close>,
  clamped. The source computes the scale \<open>innerWidth / width\<close> first (line 148) and
  multiplies then (line 150). With the calibration width \<open>2 ^ - 1020\<close> on a viewport
  1920 wide the scale overflows to \<open>Infinity\<close>, so that the sample \<open>x = 0\<close> gives
  \<open>0 * Infinity = NaN\<close> and no point, where \<open>x * innerWidth / width\<close> is 0 and the claim's
  point has the coordinate 12.
\<close>

theorem scale_overflow_counterexample:
  "gaze_px_py \<lparr>innerWidth = 1920, innerHeight = 1080\<rparr>
     (Some \<lparr>width = Some (Fin (1 / 2 ^ 1020)), height = Some (Fin 720)\<rparr>)
     \<lparr>calibrated_position = Some \<lparr>coord_x = Some (Fin 0), coord_y = Some (Fin 360)\<rparr>,
      normalized_pupil = None\<rparr>
   = (Some NaN, Some (Fin 540)) \<and>
   gaze_point \<lparr>innerWidth = 1920, innerHeight = 1080\<rparr>
     (Some \<lparr>width = Some (Fin (1 / 2 ^ 1020)), height = Some (Fin 720)\<rparr>)
     \<lparr>calibrated_position = Some \<lparr>coord_x = Some (Fin 0), coord_y = Some (Fin 360)\<rparr>,
      normalized_pupil = None\<rparr>
   = None \<and>
   clamped 1920 (js_div (js_mul (Fin 0) (of_long 1920)) (Fin (1 / 2 ^ 1020))) = Fin 12 \<and>
   max 12 (min (real_of_int 1920 - 12) (0 * real_of_int 1920 / (1 / 2 ^ 1020))) = (12::real)"
proof -
  define tiny :: real where "tiny = 1 / 2 ^ 1020"
  have pos: "0 < tiny"
    by (simp add: tiny_def)
  have "(2::real) ^ 1024 = 2 ^ 4 * 2 ^ 1020"
    by (simp add: power_add [symmetric])
  then have "(2::real) ^ 1024 \<le> \<bar>1920 / tiny\<bar>"
    by (simp add: tiny_def)
  then have "round_double (1920 / tiny) = PInf"
    using pos by (simp add: round_double_overflow signed_inf_def not_less)
  then have scale: "js_div (of_long 1920) (Fin tiny) = PInf"
    using pos by (simp add: js_div_Fin of_long_def)
  have x: "js_mul (Fin 0) PInf = NaN"
    by (simp add: js_mul_def)
  have y: "js_mul (Fin 360) (js_div (of_long 1080) (Fin 720)) = Fin 540"
    by (simp add: js_div_Fin js_mul_Fin of_long_def round_double_3_2 round_double_numeral)
  have z: "js_div (js_mul (Fin 0) (of_long 1920)) (Fin tiny) = Fin 0"
    using pos by (simp add: js_mul_Fin js_div_Fin of_long_def signed_zero_def)
  show ?thesis
    unfolding tiny_def [symmetric]
    by (simp add: gaze_point_def gaze_px_py_def ToNumber_def Number_isNaN_def scale x y z
        clamped_Fin)
qed

text \<open>
  Claim C1, amended. For a sample with \<open>calibrated_position {x, y}\<close> received while a
  calibration \<open>{width, height}\<close> is held, all four finite numbers, the coordinates are
  \<open>px = x * (innerWidth / width)\<close> and \<open>py = y * (innerHeight / height)\<close> in the source's
  arithmetic, the scale rounded before the product, whatever \<open>normalized_pupil\<close> is.
  If one of them is NaN there is no point and the cycle displays none; otherwise the
  point mapped and displayed is \<open>px\<close> and \<open>py\<close>, each clamped by
  \<open>max 12 (min (dimension - 12) v)\<close>. Where the scale and the product are doubles, the
  clamped coordinate is that of the exact \<open>x * innerWidth / width\<close>; where both are in
  the normal range, the coordinate before the clamp is within \<open>3 / 2 ^ 53\<close> of it,
  relatively. On a viewport of 1920 by 1080 with the calibration 1280 by 720, the sample
  (640, 360) maps to (960, 540).
\<close>

theorem calibrated_sample_mapped:
  assumes "calibrationRef s = Some \<lparr>width = Some (Fin c), height = Some (Fin d)\<rparr>"
    and "calibrated_position data = Some \<lparr>coord_x = Some (Fin a), coord_y = Some (Fin b)\<rparr>"
    and "px = js_mul (Fin a) (js_div (of_long (innerWidth win)) (Fin c))"
    and "py = js_mul (Fin b) (js_div (of_long (innerHeight win)) (Fin d))"
    and "W = real_of_int (innerWidth win)" and "H = real_of_int (innerHeight win)"
  shows "gaze_px_py win (calibrationRef s) data = (Some px, Some py) \<and>
    (px = NaN \<or> py = NaN \<longrightarrow>
       gaze_point win (calibrationRef s) data = None \<and>
       position (pollGaze_settle win doc (Response True (Json data)) s) = None) \<and>
    (px \<noteq> NaN \<and> py \<noteq> NaN \<longrightarrow>
       gaze_point win (calibrationRef s) data =
         Some (clamped (innerWidth win) px, clamped (innerHeight win) py) \<and>
       position (pollGaze_settle win doc (Response True (Json data)) s) =
         Some (clamped (innerWidth win) px, clamped (innerHeight win) py)) \<and>
    (c \<noteq> 0 \<and> is_double (W / c) \<and> is_double (a * (W / c)) \<longrightarrow>
       px \<noteq> NaN \<and> clamped (innerWidth win) px = Fin (max 12 (min (W - 12) (a * W / c)))) \<and>
    (d \<noteq> 0 \<and> is_double (H / d) \<and> is_double (b * (H / d)) \<longrightarrow>
       py \<noteq> NaN \<and> clamped (innerHeight win) py = Fin (max 12 (min (H - 12) (b * H / d)))) \<and>
    (in_normal_range (W / c) \<and> in_normal_range (a * (W / c)) \<longrightarrow>
       (\<exists>p. px = Fin p \<and> \<bar>p - a * W / c\<bar> \<le> \<bar>a * W / c\<bar> * 3 / 2 ^ 53)) \<and>
    (in_normal_range (H / d) \<and> in_normal_range (b * (H / d)) \<longrightarrow>
       (\<exists>p. py = Fin p \<and> \<bar>p - b * H / d\<bar> \<le> \<bar>b * H / d\<bar> * 3 / 2 ^ 53))"
proof -
  have g: "gaze_px_py win (calibrationRef s) data = (Some px, Some py)"
    using assms(1-4) by (simp add: gaze_px_py_def ToNumber_def)
  have none: "px = NaN \<or> py = NaN \<longrightarrow>
       gaze_point win (calibrationRef s) data = None \<and>
       position (pollGaze_settle win doc (Response True (Json data)) s) = None"
    by (auto simp: pollGaze_settle_position gaze_point_def g Number_isNaN_def)
  have some: "px \<noteq> NaN \<and> py \<noteq> NaN \<longrightarrow>
       gaze_point win (calibrationRef s) data =
         Some (clamped (innerWidth win) px, clamped (innerHeight win) py) \<and>
       position (pollGaze_settle win doc (Response True (Json data)) s) =
         Some (clamped (innerWidth win) px, clamped (innerHeight win) py)"
    by (simp add: pollGaze_settle_position gaze_point_Some [OF g])
  have ex: "c \<noteq> 0 \<and> is_double (W / c) \<and> is_double (a * (W / c)) \<longrightarrow>
       px \<noteq> NaN \<and> clamped (innerWidth win) px = Fin (max 12 (min (W - 12) (a * W / c)))"
    unfolding assms(3,5) of_long_def using scaled_exact [of c "real_of_int (innerWidth win)" a]
    by simp
  have ey: "d \<noteq> 0 \<and> is_double (H / d) \<and> is_double (b * (H / d)) \<longrightarrow>
       py \<noteq> NaN \<and> clamped (innerHeight win) py = Fin (max 12 (min (H - 12) (b * H / d)))"
    unfolding assms(4,6) of_long_def using scaled_exact [of d "real_of_int (innerHeight win)" b]
    by simp
  have nx: "in_normal_range (W / c) \<and> in_normal_range (a * (W / c)) \<longrightarrow>
       (\<exists>p. px = Fin p \<and> \<bar>p - a * W / c\<bar> \<le> \<bar>a * W / c\<bar> * 3 / 2 ^ 53)"
    unfolding assms(3,5) of_long_def using scaled_near [of "real_of_int (innerWidth win)" c a]
    by blast
  have ny: "in_normal_range (H / d) \<and> in_normal_range (b * (H / d)) \<longrightarrow>
       (\<exists>p. py = Fin p \<and> \<bar>p - b * H / d\<bar> \<le> \<bar>b * H / d\<bar> * 3 / 2 ^ 53)"
    unfolding assms(4,6) of_long_def using scaled_near [of "real_of_int (innerHeight win)" d b]
    by blast
  from g none some ex ey nx ny show ?thesis by blast
qed

theorem calibrated_sample_mapped_witness:
  "gaze_point \<lparr>innerWidth = 1920, innerHeight = 1080\<rparr>
     (Some \<lparr>width = Some (Fin 1280), height = Some (Fin 720)\<rparr>)
     \<lparr>calibrated_position = Some \<lparr>coord_x = Some (Fin 640), coord_y = Some (Fin 360)\<rparr>,
      normalized_pupil = None\<rparr>
   = Some (Fin 960, Fin 540) \<and>
   position (pollGaze_settle \<lparr>innerWidth = 1920, innerHeight = 1080\<rparr>
     \<lparr>elementFromPoint = (\<lambda>x y. None), closest_activate = (\<lambda>e. None)\<rparr>
     (Response True (Json
       \<lparr>calibrated_position = Some \<lparr>coord_x = Some (Fin 640), coord_y = Some (Fin 360)\<rparr>,
        normalized_pupil = None\<rparr>))
     ((initial_overlay :: nat overlay)
        \<lparr>calibrationRef := Some \<lparr>width = Some (Fin 1280), height = Some (Fin 720)\<rparr>\<rparr>))
   = Some (Fin 960, Fin 540)"
proof -
  let ?s = "(initial_overlay :: nat overlay)
        \<lparr>calibrationRef := Some \<lparr>width = Some (Fin 1280), height = Some (Fin 720)\<rparr>\<rparr>"
  let ?data = "\<lparr>calibrated_position = Some \<lparr>coord_x = Some (Fin 640), coord_y = Some (Fin 360)\<rparr>,
        normalized_pupil = None\<rparr>"
  let ?win = "\<lparr>innerWidth = 1920, innerHeight = 1080\<rparr>"
  have cal: "calibrationRef ?s = Some \<lparr>width = Some (Fin 1280), height = Some (Fin 720)\<rparr>"
    by simp
  have smp: "calibrated_position ?data = Some \<lparr>coord_x = Some (Fin 640), coord_y = Some (Fin 360)\<rparr>"
    by simp
  have d1: "is_double (3 / 2)"
    using is_double_dyadic [of 3 1] by simp
  have d2: "is_double 960"
    using is_double_dyadic [of 960 0] by simp
  have d3: "is_double 540"
    using is_double_dyadic [of 540 0] by simp
  note T = calibrated_sample_mapped [OF cal smp refl refl refl refl,
      of ?win "\<lparr>elementFromPoint = (\<lambda>x y. None), closest_activate = (\<lambda>e. None)\<rparr>"]
  from T d1 d2 d3 show ?thesis by simp
qed

text \<open>
  Claim C2. A sample with \<open>normalized_pupil {x, y}\<close> of finite numbers, where the
  calibrated branch does not apply (no \<open>calibrated_position\<close>, or no calibration held),
  maps to \<open>(x * innerWidth, y * innerHeight)\<close>, each axis clamped by
  \<open>max 12 (min (dimension - 12) v)\<close>, and the cycle displays that point. The products are
  the source's: the doubles nearest to the exact products, equal to them where these are
  doubles, and within \<open>1 / 2 ^ 53\<close> of them, relatively, in the normal range. On a
  viewport of 1920 by 1080 the sample (0, 0) maps to (0, 0) before the clamp and to
  (12, 12).
\<close>

theorem normalized_sample_mapped:
  assumes "calibrated_position data = None \<or> calibrationRef s = None"
    and "normalized_pupil data = Some \<lparr>coord_x = Some (Fin a), coord_y = Some (Fin b)\<rparr>"
    and "W = real_of_int (innerWidth win)" and "H = real_of_int (innerHeight win)"
  shows "gaze_point win (calibrationRef s) data =
           Some (clamped (innerWidth win) (round_double (a * W)),
                 clamped (innerHeight win) (round_double (b * H))) \<and>
         position (pollGaze_settle win doc (Response True (Json data)) s) =
           Some (clamped (innerWidth win) (round_double (a * W)),
                 clamped (innerHeight win) (round_double (b * H))) \<and>
         (is_double (a * W) \<longrightarrow>
            clamped (innerWidth win) (round_double (a * W)) = Fin (max 12 (min (W - 12) (a * W)))) \<and>
         (is_double (b * H) \<longrightarrow>
            clamped (innerHeight win) (round_double (b * H)) = Fin (max 12 (min (H - 12) (b * H)))) \<and>
         (in_normal_range (a * W) \<longrightarrow>
            (\<exists>p. round_double (a * W) = Fin p \<and> \<bar>p - a * W\<bar> \<le> \<bar>a * W\<bar> / 2 ^ 53)) \<and>
         (in_normal_range (b * H) \<longrightarrow>
            (\<exists>p. round_double (b * H) = Fin p \<and> \<bar>p - b * H\<bar> \<le> \<bar>b * H\<bar> / 2 ^ 53))"
proof -
  from assms(1,2) have g: "gaze_px_py win (calibrationRef s) data =
      (Some (js_mul (Fin a) (of_long (innerWidth win))),
       Some (js_mul (Fin b) (of_long (innerHeight win))))"
    by (auto simp: gaze_px_py_def ToNumber_def split: option.splits)
  have p: "gaze_point win (calibrationRef s) data =
           Some (clamped (innerWidth win) (round_double (a * W)),
                 clamped (innerHeight win) (round_double (b * H)))"
    using gaze_point_Some [OF g]
    by (simp add: of_long_def js_mul_not_NaN clamped_mul assms(3,4))
  show ?thesis
    using in_normal_range_round [of "a * W"] in_normal_range_round [of "b * H"]
    by (simp add: pollGaze_settle_position p round_double_exact clamped_Fin assms(3,4))
qed

theorem normalized_sample_mapped_witness:
  "gaze_px_py \<lparr>innerWidth = 1920, innerHeight = 1080\<rparr> None
     \<lparr>calibrated_position = None,
      normalized_pupil = Some \<lparr>coord_x = Some (Fin 0), coord_y = Some (Fin 0)\<rparr>\<rparr>
   = (Some (Fin 0), Some (Fin 0)) \<and>
   gaze_point \<lparr>innerWidth = 1920, innerHeight = 1080\<rparr> None
     \<lparr>calibrated_position = None,
      normalized_pupil = Some \<lparr>coord_x = Some (Fin 0), coord_y = Some (Fin 0)\<rparr>\<rparr>
   = Some (Fin 12, Fin 12) \<and>
   position (pollGaze_settle \<lparr>innerWidth = 1920, innerHeight = 1080\<rparr>
     \<lparr>elementFromPoint = (\<lambda>x y. None), closest_activate = (\<lambda>e. None)\<rparr>
     (Response True (Json
       \<lparr>calibrated_position = None,
        normalized_pupil = Some \<lparr>coord_x = Some (Fin 0), coord_y = Some (Fin 0)\<rparr>\<rparr>))
     (initial_overlay :: nat overlay))
   = Some (Fin 12, Fin 12)"
proof -
  let ?data = "\<lparr>calibrated_position = None,
      normalized_pupil = Some \<lparr>coord_x = Some (Fin 0), coord_y = Some (Fin 0)\<rparr>\<rparr>"
  have "calibrated_position ?data = None \<or> calibrationRef (initial_overlay :: nat overlay) = None"
    by simp
  moreover have "normalized_pupil ?data = Some \<lparr>coord_x = Some (Fin 0), coord_y = Some (Fin 0)\<rparr>"
    by simp
  ultimately have T: "gaze_point \<lparr>innerWidth = 1920, innerHeight = 1080\<rparr>
        (calibrationRef (initial_overlay :: nat overlay)) ?data =
      Some (clamped 1920 (round_double (0 * real_of_int 1920)),
            clamped 1080 (round_double (0 * real_of_int 1080))) \<and>
      position (pollGaze_settle \<lparr>innerWidth = 1920, innerHeight = 1080\<rparr>
        \<lparr>elementFromPoint = (\<lambda>x y. None), closest_activate = (\<lambda>e. None)\<rparr>
        (Response True (Json ?data)) (initial_overlay :: nat overlay)) =
      Some (clamped 1920 (round_double (0 * real_of_int 1920)),
            clamped 1080 (round_double (0 * real_of_int 1080)))"
    using normalized_sample_mapped [of ?data "initial_overlay :: nat overlay" 0 0
        "real_of_int 1920" "\<lparr>innerWidth = 1920, innerHeight = 1080\<rparr>" "real_of_int 1080"
        "\<lparr>elementFromPoint = (\<lambda>x y. None), closest_activate = (\<lambda>e. None)\<rparr>"]
    by simp
  have c: "calibrationRef (initial_overlay :: nat overlay) = None"
    by (simp add: initial_overlay_def)
  have g: "gaze_px_py \<lparr>innerWidth = 1920, innerHeight = 1080\<rparr> None ?data
      = (Some (Fin 0), Some (Fin 0))"
    by (simp add: gaze_px_py_def ToNumber_def of_long_def js_mul_Fin signed_zero_def)
  from T g show ?thesis
    by (simp add: c round_double_0 clamped_Fin)
qed

text \<open>
  Claim C3 says that a coordinate that is not finite, an infinity included, makes the
  mapping yield null. The guard of lines 157 to 162 tests \<open>Number.isNaN\<close> only: with a
  calibration of width 0 the sample (640, 360) gives \<open>px = Infinity\<close>, and the mapping
  returns the point (1908, 540).
\<close>

theorem infinite_coordinate_counterexample:
  "gaze_px_py \<lparr>innerWidth = 1920, innerHeight = 1080\<rparr>
     (Some \<lparr>width = Some (Fin 0), height = Some (Fin 720)\<rparr>)
     \<lparr>calibrated_position = Some \<lparr>coord_x = Some (Fin 640), coord_y = Some (Fin 360)\<rparr>,
      normalized_pupil = None\<rparr>
   = (Some PInf, Some (Fin 540)) \<and>
   gaze_point \<lparr>innerWidth = 1920, innerHeight = 1080\<rparr>
     (Some \<lparr>width = Some (Fin 0), height = Some (Fin 720)\<rparr>)
     \<lparr>calibrated_position = Some \<lparr>coord_x = Some (Fin 640), coord_y = Some (Fin 360)\<rparr>,
      normalized_pupil = None\<rparr>
   = Some (Fin 1908, Fin 540)"
proof -
  have x: "js_mul (Fin 640) (js_div (of_long 1920) (Fin 0)) = PInf"
    by (simp add: js_mul_def js_div_def of_long_def signed_inf_def)
  have y: "js_mul (Fin 360) (js_div (of_long 1080) (Fin 720)) = Fin 540"
    by (simp add: js_div_Fin js_mul_Fin of_long_def round_double_3_2 round_double_numeral)
  show ?thesis
    by (simp add: gaze_point_def gaze_px_py_def ToNumber_def Number_isNaN_def x y
        clamped_PInf clamped_Fin)
qed

text \<open>
  Claim C3, amended. The mapping yields null exactly when a coordinate is absent or NaN;
  the cycle then sets the displayed point to null and clears the highlight (no element
  carries the marker afterwards, on a document where the marker is the overlay's own).
  A coordinate that is infinite is not rejected: it is clamped, \<open>Infinity\<close> to
  \<open>max 12 (dimension - 12)\<close> and \<open>-Infinity\<close> to 12.
\<close>

theorem nan_or_absent_yields_null:
  "(gaze_point win calib data = None \<longleftrightarrow>
      (fst (gaze_px_py win calib data) = None \<or> fst (gaze_px_py win calib data) = Some NaN \<or>
       snd (gaze_px_py win calib data) = None \<or> snd (gaze_px_py win calib data) = Some NaN)) \<and>
   (gaze_point win (calibrationRef s) data = None \<longrightarrow>
      position (pollGaze_settle win doc (Response True (Json data)) s) = None \<and>
      highlightedRef (pollGaze_settle win doc (Response True (Json data)) s) = None \<and>
      (highlight_owned s \<longrightarrow>
         \<not> carries (pollGaze_settle win doc (Response True (Json data)) s) e)) \<and>
   (gaze_px_py win calib data = (Some px, Some py) \<and> px \<noteq> NaN \<and> py \<noteq> NaN \<longrightarrow>
      gaze_point win calib data =
        Some (clamped (innerWidth win) px, clamped (innerHeight win) py)) \<and>
   clamped n PInf = Fin (max 12 (real_of_int n - 12)) \<and>
   clamped n NInf = Fin 12"
  using no_signal_state [OF refl, of s]
  by (simp add: gaze_point_None_iff [symmetric] gaze_point_Some pollGaze_settle_no_point
      clamped_PInf clamped_NInf unmarked_def)

theorem nan_or_absent_yields_null_witness:
  "gaze_point \<lparr>innerWidth = 1920, innerHeight = 1080\<rparr>
     (calibrationRef (applyHighlight (Some 1) (initial_overlay :: nat overlay)))
     \<lparr>calibrated_position = None,
      normalized_pupil = Some \<lparr>coord_x = None, coord_y = Some (Fin (1 / 2))\<rparr>\<rparr> = None \<and>
   highlight_owned (applyHighlight (Some 1) (initial_overlay :: nat overlay)) \<and>
   highlightedRef (applyHighlight (Some 1) (initial_overlay :: nat overlay)) = Some 1 \<and>
   position (pollGaze_settle \<lparr>innerWidth = 1920, innerHeight = 1080\<rparr>
     \<lparr>elementFromPoint = (\<lambda>x y. Some 1), closest_activate = (\<lambda>e. Some e)\<rparr>
     (Response True (Json \<lparr>calibrated_position = None,
        normalized_pupil = Some \<lparr>coord_x = None, coord_y = Some (Fin (1 / 2))\<rparr>\<rparr>))
     (applyHighlight (Some 1) (initial_overlay :: nat overlay))) = None \<and>
   highlightedRef (pollGaze_settle \<lparr>innerWidth = 1920, innerHeight = 1080\<rparr>
     \<lparr>elementFromPoint = (\<lambda>x y. Some 1), closest_activate = (\<lambda>e. Some e)\<rparr>
     (Response True (Json \<lparr>calibrated_position = None,
        normalized_pupil = Some \<lparr>coord_x = None, coord_y = Some (Fin (1 / 2))\<rparr>\<rparr>))
     (applyHighlight (Some 1) (initial_overlay :: nat overlay))) = None \<and>
   \<not> carries (pollGaze_settle \<lparr>innerWidth = 1920, innerHeight = 1080\<rparr>
     \<lparr>elementFromPoint = (\<lambda>x y. Some 1), closest_activate = (\<lambda>e. Some e)\<rparr>
     (Response True (Json \<lparr>calibrated_position = None,
        normalized_pupil = Some \<lparr>coord_x = None, coord_y = Some (Fin (1 / 2))\<rparr>\<rparr>))
     (applyHighlight (Some 1) (initial_overlay :: nat overlay))) 1"
proof -
  let ?s = "applyHighlight (Some 1) (initial_overlay :: nat overlay)"
  let ?d = "\<lparr>calibrated_position = None,
      normalized_pupil = Some \<lparr>coord_x = None, coord_y = Some (Fin (1 / 2))\<rparr>\<rparr>"
  have g: "gaze_point \<lparr>innerWidth = 1920, innerHeight = 1080\<rparr> (calibrationRef ?s) ?d = None"
    by (simp add: gaze_point_def gaze_px_py_def ToNumber_def Number_isNaN_def js_mul_def
        applyHighlight_frame initial_overlay_def)
  have "highlight_owned (initial_overlay :: nat overlay)"
    by (simp add: highlight_owned_def carries_def initial_overlay_def)
  then have h: "highlight_owned ?s" by (rule applyHighlight_owned)
  from nan_or_absent_yields_null
    [of "\<lparr>innerWidth = 1920, innerHeight = 1080\<rparr>" "calibrationRef ?s" ?d ?s
        "\<lparr>elementFromPoint = (\<lambda>x y. Some 1), closest_activate = (\<lambda>e. Some e)\<rparr>" 1,
     THEN conjunct2, THEN conjunct1] g h
  show ?thesis by (simp add: applyHighlight_ref)
qed

text \<open>
  Claim C10. A point the mapping returns has both coordinates at least 12, since the
  lower bound is applied last; where a dimension of the viewport is below 24, the
  coordinate of that axis is exactly 12, above \<open>dimension - 12\<close>.
\<close>

theorem clamp_lower_bound_last:
  assumes "gaze_point win calib data = Some (X, Y)"
  shows "(\<exists>r. X = Fin r \<and> 12 \<le> r \<and> (innerWidth win < 24 \<longrightarrow> r = 12)) \<and>
         (\<exists>r. Y = Fin r \<and> 12 \<le> r \<and> (innerHeight win < 24 \<longrightarrow> r = 12)) \<and>
         (innerWidth win < 24 \<longrightarrow> real_of_int (innerWidth win) - 12 < 12) \<and>
         (innerHeight win < 24 \<longrightarrow> real_of_int (innerHeight win) - 12 < 12)"
proof -
  from gaze_point_SomeD [OF assms] obtain px py where
    "px \<noteq> NaN" "py \<noteq> NaN" "X = clamped (innerWidth win) px" "Y = clamped (innerHeight win) py"
    by blast
  then show ?thesis
    using clamped_lower [of px "innerWidth win"] clamped_lower [of py "innerHeight win"]
    by auto
qed

theorem clamp_lower_bound_last_witness:
  "gaze_point \<lparr>innerWidth = 20, innerHeight = 1080\<rparr> None
     \<lparr>calibrated_position = None,
      normalized_pupil = Some \<lparr>coord_x = Some (Fin (1 / 2)), coord_y = Some (Fin (1 / 2))\<rparr>\<rparr>
   = Some (Fin 12, Fin 540) \<and> real_of_int 20 - 12 < 12"
proof -
  have x: "js_mul (Fin (1 / 2)) (of_long 20) = Fin 10"
    by (simp add: js_mul_Fin of_long_def round_double_numeral)
  have y: "js_mul (Fin (1 / 2)) (of_long 1080) = Fin 540"
    by (simp add: js_mul_Fin of_long_def round_double_numeral)
  have p: "gaze_point \<lparr>innerWidth = 20, innerHeight = 1080\<rparr> None
     \<lparr>calibrated_position = None,
      normalized_pupil = Some \<lparr>coord_x = Some (Fin (1 / 2)), coord_y = Some (Fin (1 / 2))\<rparr>\<rparr>
   = Some (Fin 12, Fin 540)"
    by (simp add: gaze_point_def gaze_px_py_def ToNumber_def Number_isNaN_def x y clamped_Fin)
  from clamp_lower_bound_last [OF p] show ?thesis using p by simp
qed

subsection \<open>The highlight\<close>

text \<open>
  Claim C7. For every target \<open>x\<close>, null included, a call \<open>applyHighlight(x)\<close> right
  after \<open>applyHighlight(x)\<close> performs no write: the target is the one held.
\<close>

theorem applyHighlight_repeat_noop:
  "applyHighlight_writes (applyHighlight x s) x = [] \<and>
   visited (applyHighlight_writes (applyHighlight x s) x) (applyHighlight x s) = [] \<and>
   applyHighlight x (applyHighlight x s) = applyHighlight x s"
proof -
  have "applyHighlight_writes (applyHighlight x s) x = []"
    by (simp add: applyHighlight_writes_def applyHighlight_ref)
  then show ?thesis by (simp add: applyHighlight_def)
qed

theorem applyHighlight_repeat_noop_witness:
  "applyHighlight_writes (applyHighlight (Some (7::nat)) initial_overlay) (Some 7) = [] \<and>
   applyHighlight_writes (applyHighlight None (initial_overlay :: nat overlay)) None = []"
  using applyHighlight_repeat_noop [of "Some (7::nat)" initial_overlay]
    applyHighlight_repeat_noop [of None "initial_overlay :: nat overlay"]
  by simp

lemma carries_not_after_switch:
  assumes "highlight_owned s" and "p \<noteq> q"
  shows "\<not> carries (applyHighlight (Some q) s) p"
proof
  assume "carries (applyHighlight (Some q) s) p"
  with applyHighlight_owned [OF assms(1), of "Some q"]
  have "highlightedRef (applyHighlight (Some q) s) = Some p"
    by (simp add: highlight_owned_def)
  with assms(2) show False by (simp add: applyHighlight_ref)
qed

text \<open>
  Claim C6. Through any sequence of applyHighlight calls, in every state between two
  writes, at most one element carries the highlight marker, on a document where the
  marker is the overlay's own. A call with a new target, not null, removes the classes
  from the element held before it adds them to the new one, and the element held before
  does not carry the marker afterwards.
\<close>

theorem highlight_exclusive:
  assumes "highlight_owned s"
  shows "(\<forall>t \<in> set (s # applyHighlight_calls targets s). at_most_one_highlighted t) \<and>
         (highlightedRef s = Some p \<and> p \<noteq> q \<longrightarrow>
            applyHighlight_writes s (Some q) =
              map (ClassList_remove p) highlightClasses @
              [Set_highlightedRef None, Set_highlightedRef (Some q)] @
              map (ClassList_add q) highlightClasses \<and>
            \<not> carries (applyHighlight (Some q) s) p)"
proof (intro conjI ballI impI)
  fix t
  assume "t \<in> set (s # applyHighlight_calls targets s)"
  with assms have "highlight_owned t"
    using applyHighlight_calls_owned [of s t targets] by auto
  then show "at_most_one_highlighted t" by (rule owned_at_most_one)
next
  assume "highlightedRef s = Some p \<and> p \<noteq> q"
  then show "applyHighlight_writes s (Some q) =
      map (ClassList_remove p) highlightClasses @
      [Set_highlightedRef None, Set_highlightedRef (Some q)] @
      map (ClassList_add q) highlightClasses"
    by (simp add: applyHighlight_writes_def clearHighlight_writes_def)
next
  assume "highlightedRef s = Some p \<and> p \<noteq> q"
  with assms show "\<not> carries (applyHighlight (Some q) s) p"
    by (simp add: carries_not_after_switch)
qed

theorem highlight_exclusive_witness:
  "highlight_owned (applyHighlight (Some 1) (initial_overlay :: nat overlay)) \<and>
   highlightedRef (applyHighlight (Some 1) (initial_overlay :: nat overlay)) = Some 1 \<and>
   list_all at_most_one_highlighted
     (applyHighlight (Some 1) initial_overlay #
      applyHighlight_calls [Some 2, None, Some 2, Some 3]
        (applyHighlight (Some 1) (initial_overlay :: nat overlay))) \<and>
   \<not> carries (applyHighlight (Some 2) (applyHighlight (Some 1) (initial_overlay :: nat overlay))) 1"
proof -
  have "highlight_owned (initial_overlay :: nat overlay)"
    by (simp add: highlight_owned_def carries_def initial_overlay_def)
  then have h: "highlight_owned (applyHighlight (Some 1) (initial_overlay :: nat overlay))"
    by (rule applyHighlight_owned)
  from highlight_exclusive [OF h, of "[Some 2, None, Some 2, Some 3]" 1 2] h
  show ?thesis by (simp add: list_all_iff applyHighlight_ref)
qed

subsection \<open>The polling loop\<close>

text \<open>
  Claim C4 says that a tick never fetches while the fetch of an earlier tick has not
  ended. The run below evaluates the code: the effect's first call of pollGaze starts
  fetch A; the overlay is disabled, and the cleanup and the disabled effect clear the
  busy flag, which is one ref shared by every loop; the overlay is enabled again and
  the new effect's first call starts fetch B while A has not ended; A ends, and the
  finally block of its call clears the flag that B's call had set; the next tick of the
  interval finds the flag clear and starts fetch C while B has not ended.
\<close>

theorem stale_settle_breaks_single_flight:
  "(let URL_new = (\<lambda>path base. Returns (base @ path));
        JSON_parse = (\<lambda>raw. Returns None);
        win = \<lparr>innerWidth = 1920, innerHeight = 1080\<rparr>;
        doc = \<lparr>elementFromPoint = (\<lambda>x y. None :: nat option), closest_activate = (\<lambda>e. None)\<rparr>;
        on = Items [(BACKEND_URL_STORAGE_KEY, ''http://localhost:8000''),
                    (OVERLAY_ENABLED_KEY, ''true'')];
        off = Items [(BACKEND_URL_STORAGE_KEY, ''http://localhost:8000'')];
        s1 = syncFromStorage JSON_parse on initial_overlay;
        s2 = fst (poll_effect URL_new 7 (enabled s1) s1);
        fetch_A = snd (poll_effect URL_new 7 (enabled s1) s1);
        s3 = syncFromStorage JSON_parse off s2;
        s4 = fst (poll_effect URL_new 8 (enabled s3) (poll_effect_cleanup s3));
        s5 = syncFromStorage JSON_parse on s4;
        s6 = fst (poll_effect URL_new 9 (enabled s5) s5);
        fetch_B = snd (poll_effect URL_new 9 (enabled s5) s5);
        s7 = pollGaze_settle win doc Rejected s6;
        fetch_C = snd (pollGaze_start URL_new True s7)
    in fetch_A = Some ''http://localhost:8000/api/gaze'' \<and> pollingBusyRef s2 \<and>
       \<not> pollingBusyRef s4 \<and>
       fetch_B = Some ''http://localhost:8000/api/gaze'' \<and> pollingBusyRef s6 \<and>
       \<not> pollingBusyRef s7 \<and>
       fetch_C = Some ''http://localhost:8000/api/gaze'')"
proof -
  let ?URL = "\<lambda>path base :: string. Returns (base @ path) :: string attempt"
  let ?parse = "\<lambda>raw :: string. Returns None :: calibration option attempt"
  let ?on = "Items [(BACKEND_URL_STORAGE_KEY, ''http://localhost:8000''),
                    (OVERLAY_ENABLED_KEY, ''true'')]"
  let ?off = "Items [(BACKEND_URL_STORAGE_KEY, ''http://localhost:8000'')]"
  let ?s1 = "\<lparr>enabled = True, position = None, backendRef = Some ''http://localhost:8000'',
       calibrationRef = None, pollTimerRef = None, pollingBusyRef = False,
       highlightedRef = None, classList = (\<lambda>e. {}), intervals = {},
       console_warnings = []\<rparr> :: nat overlay"
  let ?s2 = "\<lparr>enabled = True, position = None, backendRef = Some ''http://localhost:8000'',
       calibrationRef = None, pollTimerRef = Some 7, pollingBusyRef = True,
       highlightedRef = None, classList = (\<lambda>e. {}), intervals = {7},
       console_warnings = []\<rparr> :: nat overlay"
  let ?s3 = "\<lparr>enabled = False, position = None, backendRef = Some ''http://localhost:8000'',
       calibrationRef = None, pollTimerRef = Some 7, pollingBusyRef = True,
       highlightedRef = None, classList = (\<lambda>e. {}), intervals = {7},
       console_warnings = []\<rparr> :: nat overlay"
  let ?s4 = "\<lparr>enabled = False, position = None, backendRef = Some ''http://localhost:8000'',
       calibrationRef = None, pollTimerRef = None, pollingBusyRef = False,
       highlightedRef = None, classList = (\<lambda>e. {}), intervals = {},
       console_warnings = []\<rparr> :: nat overlay"
  let ?s6 = "\<lparr>enabled = True, position = None, backendRef = Some ''http://localhost:8000'',
       calibrationRef = None, pollTimerRef = Some 9, pollingBusyRef = True,
       highlightedRef = None, classList = (\<lambda>e. {}), intervals = {9},
       console_warnings = []\<rparr> :: nat overlay"
  let ?s7 = "\<lparr>enabled = True, position = None, backendRef = Some ''http://localhost:8000'',
       calibrationRef = None, pollTimerRef = Some 9, pollingBusyRef = False,
       highlightedRef = None, classList = (\<lambda>e. {}), intervals = {9},
       console_warnings = []\<rparr> :: nat overlay"
  have e1: "syncFromStorage ?parse ?on initial_overlay = ?s1"
    by (simp add: syncFromStorage_def getItem_def truthy_def initial_overlay_def
        BACKEND_URL_STORAGE_KEY_def CALIBRATION_STORAGE_KEY_def OVERLAY_ENABLED_KEY_def)
  have e2: "poll_effect ?URL 7 True ?s1 = (?s2, Some ''http://localhost:8000/api/gaze'')"
    by (simp add: poll_effect_def pollGaze_start_def truthy_def)
  have e3: "syncFromStorage ?parse ?off ?s2 = ?s3"
    by (simp add: syncFromStorage_def getItem_def truthy_def
        BACKEND_URL_STORAGE_KEY_def CALIBRATION_STORAGE_KEY_def OVERLAY_ENABLED_KEY_def
        clearHighlight_def clearHighlight_writes_def)
  have e4: "poll_effect ?URL 8 False (poll_effect_cleanup ?s3) = (?s4, None)"
    by (simp add: poll_effect_def poll_effect_cleanup_def clear_poll_timer_def
        clearHighlight_def clearHighlight_writes_def)
  have e5: "syncFromStorage ?parse ?on ?s4 = ?s1"
    by (simp add: syncFromStorage_def getItem_def truthy_def
        BACKEND_URL_STORAGE_KEY_def CALIBRATION_STORAGE_KEY_def OVERLAY_ENABLED_KEY_def)
  have e6: "poll_effect ?URL 9 True ?s1 = (?s6, Some ''http://localhost:8000/api/gaze'')"
    by (simp add: poll_effect_def pollGaze_start_def truthy_def)
  have e7: "pollGaze_settle \<lparr>innerWidth = 1920, innerHeight = 1080\<rparr>
      \<lparr>elementFromPoint = (\<lambda>x y. None :: nat option), closest_activate = (\<lambda>e. None)\<rparr>
      Rejected ?s6 = ?s7"
    by (simp add: pollGaze_settle_def pollGaze_catch_def pollGaze_finally_def
        applyHighlight_def applyHighlight_writes_def)
  have e8: "pollGaze_start ?URL True ?s7 =
      (?s7\<lparr>pollingBusyRef := True\<rparr>, Some ''http://localhost:8000/api/gaze'')"
    by (simp add: pollGaze_start_def truthy_def)
  show ?thesis
    unfolding Let_def e1
    by (simp add: e2 e3 e4 e5 e6 e7 e8)
qed

theorem stale_settle_breaks_single_flight_witness:
  "snd (pollGaze_start (\<lambda>path base. Returns (base @ path)) True
     (pollGaze_settle \<lparr>innerWidth = 1920, innerHeight = 1080\<rparr>
        \<lparr>elementFromPoint = (\<lambda>x y. None :: nat option), closest_activate = (\<lambda>e. None)\<rparr>
        Rejected
        (fst (poll_effect (\<lambda>path base. Returns (base @ path)) 9 True
          (syncFromStorage (\<lambda>raw. Returns None)
            (Items [(BACKEND_URL_STORAGE_KEY, ''http://localhost:8000''),
                    (OVERLAY_ENABLED_KEY, ''true'')])
            (fst (poll_effect (\<lambda>path base. Returns (base @ path)) 8 False
              (poll_effect_cleanup
                (syncFromStorage (\<lambda>raw. Returns None)
                  (Items [(BACKEND_URL_STORAGE_KEY, ''http://localhost:8000'')])
                  (fst (poll_effect (\<lambda>path base. Returns (base @ path)) 7 True
                    (syncFromStorage (\<lambda>raw. Returns None)
                      (Items [(BACKEND_URL_STORAGE_KEY, ''http://localhost:8000''),
                              (OVERLAY_ENABLED_KEY, ''true'')])
                      (initial_overlay :: nat overlay)))))))))))))
   \<noteq> None"
proof -
  have "enabled (syncFromStorage (\<lambda>raw. Returns None)
      (Items [(BACKEND_URL_STORAGE_KEY, ''http://localhost:8000''),
              (OVERLAY_ENABLED_KEY, ''true'')]) s)" for s :: "nat overlay"
    by (simp add: syncFromStorage_def getItem_def truthy_def
        BACKEND_URL_STORAGE_KEY_def CALIBRATION_STORAGE_KEY_def OVERLAY_ENABLED_KEY_def)
  moreover have "\<not> enabled (syncFromStorage (\<lambda>raw. Returns None)
      (Items [(BACKEND_URL_STORAGE_KEY, ''http://localhost:8000'')]) s)" for s :: "nat overlay"
    by (simp add: syncFromStorage_def getItem_def truthy_def clearHighlight_frame
        BACKEND_URL_STORAGE_KEY_def CALIBRATION_STORAGE_KEY_def OVERLAY_ENABLED_KEY_def)
  ultimately show ?thesis
    using stale_settle_breaks_single_flight by (simp add: Let_def)
qed

lemma pollGaze_settle_failure:
  "pollGaze_settle win doc (Response False body) s =
     pollGaze_finally (applyHighlight None (s\<lparr>position := None\<rparr>))"
  "pollGaze_settle win doc Rejected s =
     pollGaze_finally (applyHighlight None (s\<lparr>position := None\<rparr>))"
  by (simp_all add: pollGaze_settle_def pollGaze_catch_def)

text \<open>
  Claim C8. A response whose status is not a success leaves the same state as a network
  failure: the displayed point is null, the highlight is cleared and the busy flag is
  clear. The cycle ends there (the rest of pollGaze returns a state and fetches
  nothing), and the next tick, with a backend URL held, fetches again.
\<close>

theorem non_ok_status_like_network_failure:
  "pollGaze_settle win doc (Response False body) s = pollGaze_settle win doc Rejected s \<and>
   position (pollGaze_settle win doc (Response False body) s) = None \<and>
   highlightedRef (pollGaze_settle win doc (Response False body) s) = None \<and>
   \<not> pollingBusyRef (pollGaze_settle win doc (Response False body) s) \<and>
   (highlight_owned s \<longrightarrow> \<not> carries (pollGaze_settle win doc (Response False body) s) e) \<and>
   (truthy (backendRef s) = Some base \<and> URL_new ''/api/gaze'' base = Returns url \<longrightarrow>
      pollGaze_start URL_new True (pollGaze_settle win doc (Response False body) s) =
        ((pollGaze_settle win doc (Response False body) s)\<lparr>pollingBusyRef := True\<rparr>, Some url))"
proof -
  let ?t = "pollGaze_finally (applyHighlight None (s\<lparr>position := None\<rparr>))"
  have "backendRef ?t = backendRef s"
    by (simp add: pollGaze_finally_def applyHighlight_frame)
  then have "truthy (backendRef s) = Some base \<and> URL_new ''/api/gaze'' base = Returns url \<longrightarrow>
      pollGaze_start URL_new True ?t = (?t\<lparr>pollingBusyRef := True\<rparr>, Some url)"
    using no_signal_state(3) [OF refl, of s]
    by (simp add: pollGaze_start_def)
  then show ?thesis
    using no_signal_state [OF refl, of s]
    by (simp add: pollGaze_settle_failure unmarked_def)
qed

theorem non_ok_status_like_network_failure_witness:
  "highlight_owned (applyHighlight (Some 1)
      ((initial_overlay :: nat overlay)\<lparr>backendRef := Some ''http://localhost:8000''\<rparr>)) \<and>
   position (pollGaze_settle \<lparr>innerWidth = 1920, innerHeight = 1080\<rparr>
      \<lparr>elementFromPoint = (\<lambda>x y. None), closest_activate = (\<lambda>e. None)\<rparr>
      (Response False Not_json)
      (applyHighlight (Some 1)
        ((initial_overlay :: nat overlay)\<lparr>backendRef := Some ''http://localhost:8000''\<rparr>))) = None \<and>
   \<not> carries (pollGaze_settle \<lparr>innerWidth = 1920, innerHeight = 1080\<rparr>
      \<lparr>elementFromPoint = (\<lambda>x y. None), closest_activate = (\<lambda>e. None)\<rparr>
      (Response False Not_json)
      (applyHighlight (Some 1)
        ((initial_overlay :: nat overlay)\<lparr>backendRef := Some ''http://localhost:8000''\<rparr>))) 1 \<and>
   snd (pollGaze_start (\<lambda>path base. Returns (base @ path)) True
     (pollGaze_settle \<lparr>innerWidth = 1920, innerHeight = 1080\<rparr>
      \<lparr>elementFromPoint = (\<lambda>x y. None), closest_activate = (\<lambda>e. None)\<rparr>
      (Response False Not_json)
      (applyHighlight (Some 1)
        ((initial_overlay :: nat overlay)\<lparr>backendRef := Some ''http://localhost:8000''\<rparr>))))
   = Some ''http://localhost:8000/api/gaze''"
proof -
  let ?s = "applyHighlight (Some 1)
      ((initial_overlay :: nat overlay)\<lparr>backendRef := Some ''http://localhost:8000''\<rparr>)"
  have "highlight_owned ((initial_overlay :: nat overlay)\<lparr>backendRef := Some ''http://localhost:8000''\<rparr>)"
    by (simp add: highlight_owned_def carries_def initial_overlay_def)
  then have h: "highlight_owned ?s" by (rule applyHighlight_owned)
  have b: "truthy (backendRef ?s) = Some ''http://localhost:8000''"
    by (simp add: applyHighlight_frame truthy_def)
  from non_ok_status_like_network_failure
    [of "\<lparr>innerWidth = 1920, innerHeight = 1080\<rparr>"
        "\<lparr>elementFromPoint = (\<lambda>x y. None), closest_activate = (\<lambda>e. None)\<rparr>"
        Not_json ?s 1 "''http://localhost:8000''" "\<lambda>path base. Returns (base @ path)"
        "''http://localhost:8000/api/gaze''", THEN conjunct2] h b
  show ?thesis by simp
qed

subsection \<open>Reading the settings\<close>

text \<open>
  Claim C9 says that a malformed calibration alone does not force the enabled state
  false. JSON.parse throws inside the one try block of syncFromStorage, whose catch
  calls \<open>setEnabled(false)\<close>: with the backend URL present, the flag \<open>"true"\<close> and the
  calibration text \<open>{\<close>, an enabled overlay ends disabled, and the calibration it
  held stays held.
\<close>

theorem malformed_calibration_counterexample:
  "enabled (syncFromStorage (\<lambda>raw. if raw = ''{'' then Throws else Returns None)
     (Items [(BACKEND_URL_STORAGE_KEY, ''http://localhost:8000''),
             (CALIBRATION_STORAGE_KEY, ''{''),
             (OVERLAY_ENABLED_KEY, ''true'')])
     ((initial_overlay :: nat overlay)\<lparr>enabled := True,
        calibrationRef := Some \<lparr>width = Some (Fin 1280), height = Some (Fin 720)\<rparr>\<rparr>))
   = False \<and>
   calibrationRef (syncFromStorage (\<lambda>raw. if raw = ''{'' then Throws else Returns None)
     (Items [(BACKEND_URL_STORAGE_KEY, ''http://localhost:8000''),
             (CALIBRATION_STORAGE_KEY, ''{''),
             (OVERLAY_ENABLED_KEY, ''true'')])
     ((initial_overlay :: nat overlay)\<lparr>enabled := True,
        calibrationRef := Some \<lparr>width = Some (Fin 1280), height = Some (Fin 720)\<rparr>\<rparr>))
   = Some \<lparr>width = Some (Fin 1280), height = Some (Fin 720)\<rparr>"
  by (simp add: syncFromStorage_def syncFromStorage_catch_def getItem_def truthy_def
      BACKEND_URL_STORAGE_KEY_def CALIBRATION_STORAGE_KEY_def OVERLAY_ENABLED_KEY_def
      clearHighlight_frame)

lemma syncFromStorage_catch_state:
  assumes "t = syncFromStorage_catch s"
  shows "enabled t = False" and "position t = None" and "highlightedRef t = None"
    and "calibrationRef t = calibrationRef s" and "backendRef t = backendRef s"
    and "console_warnings t = console_warnings s @ [''Gaze overlay storage sync'']"
    and "highlight_owned s \<Longrightarrow> unmarked t"
proof -
  show "enabled t = False" "position t = None" "highlightedRef t = None"
    "calibrationRef t = calibrationRef s" "backendRef t = backendRef s"
    "console_warnings t = console_warnings s @ [''Gaze overlay storage sync'']"
    by (simp_all add: assms syncFromStorage_catch_def clearHighlight_frame clearHighlight_ref)
  assume "highlight_owned s"
  then have "highlight_owned
      (s\<lparr>console_warnings := console_warnings s @ [''Gaze overlay storage sync''],
         enabled := False, position := None\<rparr>)"
    by (simp add: highlight_owned_def carries_def)
  then show "unmarked t"
    unfolding assms syncFromStorage_catch_def by (rule clearHighlight_unmarked)
qed

text \<open>
  Claim C9, amended. A calibration text that JSON.parse rejects, or a storage whose
  reads throw, never makes syncFromStorage throw: the catch logs one warning, forces the
  enabled state false, sets the displayed point to null, clears the highlight and leaves
  the held calibration as it was.
\<close>

theorem storage_failure_disables:
  assumes "st = Unreadable \<or>
      (\<exists>kv raw. st = Items kv \<and> truthy (map_of kv CALIBRATION_STORAGE_KEY) = Some raw \<and>
         JSON_parse raw = Throws)"
  shows "enabled (syncFromStorage JSON_parse st s) = False \<and>
         position (syncFromStorage JSON_parse st s) = None \<and>
         highlightedRef (syncFromStorage JSON_parse st s) = None \<and>
         calibrationRef (syncFromStorage JSON_parse st s) = calibrationRef s \<and>
         console_warnings (syncFromStorage JSON_parse st s) =
           console_warnings s @ [''Gaze overlay storage sync''] \<and>
         (highlight_owned s \<longrightarrow> \<not> carries (syncFromStorage JSON_parse st s) e)"
proof -
  from assms obtain s0 where
    eq: "syncFromStorage JSON_parse st s = syncFromStorage_catch s0"
    and cal: "calibrationRef s0 = calibrationRef s"
    and con: "console_warnings s0 = console_warnings s"
    and own: "highlight_owned s \<longrightarrow> highlight_owned s0"
  proof
    assume "st = Unreadable"
    then have "syncFromStorage JSON_parse st s = syncFromStorage_catch s"
      by (simp add: syncFromStorage_def getItem_def)
    then show ?thesis using that [of s] by simp
  next
    assume "\<exists>kv raw. st = Items kv \<and> truthy (map_of kv CALIBRATION_STORAGE_KEY) = Some raw \<and>
         JSON_parse raw = Throws"
    then obtain kv raw where "st = Items kv"
      "truthy (map_of kv CALIBRATION_STORAGE_KEY) = Some raw" "JSON_parse raw = Throws"
      by blast
    then have "syncFromStorage JSON_parse st s =
        syncFromStorage_catch (s\<lparr>backendRef := map_of kv BACKEND_URL_STORAGE_KEY\<rparr>)"
      by (simp add: syncFromStorage_def getItem_def)
    then show ?thesis
      using that [of "s\<lparr>backendRef := map_of kv BACKEND_URL_STORAGE_KEY\<rparr>"]
      by (simp add: highlight_owned_def carries_def)
  qed
  from syncFromStorage_catch_state [OF refl, of s0] this show ?thesis
    by (simp add: unmarked_def)
qed

theorem storage_failure_disables_witness:
  "enabled (syncFromStorage (\<lambda>raw. if raw = ''{'' then Throws else Returns None)
     (Items [(BACKEND_URL_STORAGE_KEY, ''http://localhost:8000''),
             (CALIBRATION_STORAGE_KEY, ''{''),
             (OVERLAY_ENABLED_KEY, ''true'')])
     ((initial_overlay :: nat overlay)\<lparr>enabled := True\<rparr>)) = False \<and>
   console_warnings (syncFromStorage (\<lambda>raw. if raw = ''{'' then Throws else Returns None)
     (Items [(BACKEND_URL_STORAGE_KEY, ''http://localhost:8000''),
             (CALIBRATION_STORAGE_KEY, ''{''),
             (OVERLAY_ENABLED_KEY, ''true'')])
     ((initial_overlay :: nat overlay)\<lparr>enabled := True\<rparr>)) = [''Gaze overlay storage sync'']"
proof -
  have "truthy (map_of [(BACKEND_URL_STORAGE_KEY, ''http://localhost:8000''),
             (CALIBRATION_STORAGE_KEY, ''{''),
             (OVERLAY_ENABLED_KEY, ''true'')] CALIBRATION_STORAGE_KEY) = Some ''{''"
    by (simp add: truthy_def BACKEND_URL_STORAGE_KEY_def CALIBRATION_STORAGE_KEY_def)
  then have "\<exists>kv raw. Items [(BACKEND_URL_STORAGE_KEY, ''http://localhost:8000''),
             (CALIBRATION_STORAGE_KEY, ''{''),
             (OVERLAY_ENABLED_KEY, ''true'')] = Items kv \<and>
       truthy (map_of kv CALIBRATION_STORAGE_KEY) = Some raw \<and>
       (\<lambda>raw. if raw = ''{'' then Throws else Returns (None :: calibration option)) raw = Throws"
    if "raw = ''{''" for raw using that by auto
  then have "Items [(BACKEND_URL_STORAGE_KEY, ''http://localhost:8000''),
             (CALIBRATION_STORAGE_KEY, ''{''),
             (OVERLAY_ENABLED_KEY, ''true'')] = Unreadable \<or>
      (\<exists>kv raw. Items [(BACKEND_URL_STORAGE_KEY, ''http://localhost:8000''),
             (CALIBRATION_STORAGE_KEY, ''{''),
             (OVERLAY_ENABLED_KEY, ''true'')] = Items kv \<and>
         truthy (map_of kv CALIBRATION_STORAGE_KEY) = Some raw \<and>
         (\<lambda>raw. if raw = ''{'' then Throws else Returns (None :: calibration option)) raw = Throws)"
    by blast
  from storage_failure_disables [OF this, of "(initial_overlay :: nat overlay)\<lparr>enabled := True\<rparr>"]
  show ?thesis by (simp add: initial_overlay_def)
qed

subsection \<open>A fetch that ends after the overlay was disabled\<close>

text \<open>
  Claim C5 says that a fetch in flight when the overlay is disabled never repopulates
  the visual state. The run below evaluates the code: the settings enable the overlay,
  the effect starts a fetch, the enabled flag is removed and the settings are read
  again (as the Escape key does), React runs the cleanup and the effect of the disabled
  render, and then the fetch ends with a sample over an activatable element. The rest
  of pollGaze has no test of \<open>enabled\<close>: it sets the position and adds the highlight
  classes to that element, while the overlay stays disabled.
\<close>

theorem stale_fetch_repopulates_highlight:
  "(let URL_new = (\<lambda>path base. Returns (base @ path));
        JSON_parse = (\<lambda>raw. Returns None);
        win = \<lparr>innerWidth = 1920, innerHeight = 1080\<rparr>;
        doc = \<lparr>elementFromPoint = (\<lambda>x y. Some (3::nat)), closest_activate = (\<lambda>e. Some e)\<rparr>;
        on = Items [(BACKEND_URL_STORAGE_KEY, ''http://localhost:8000''),
                    (OVERLAY_ENABLED_KEY, ''true'')];
        off = Items [(BACKEND_URL_STORAGE_KEY, ''http://localhost:8000'')];
        data = \<lparr>calibrated_position = None,
                 normalized_pupil = Some \<lparr>coord_x = Some (Fin (1 / 2)), coord_y = Some (Fin (1 / 2))\<rparr>\<rparr>;
        s1 = syncFromStorage JSON_parse on initial_overlay;
        s2 = fst (poll_effect URL_new 7 (enabled s1) s1);
        request = snd (poll_effect URL_new 7 (enabled s1) s1);
        s3 = syncFromStorage JSON_parse off s2;
        s4 = fst (poll_effect URL_new 8 (enabled s3) (poll_effect_cleanup s3));
        s5 = pollGaze_settle win doc (Response True (Json data)) s4
    in enabled s1 \<and> request = Some ''http://localhost:8000/api/gaze'' \<and> pollingBusyRef s2 \<and>
       \<not> enabled s4 \<and> position s4 = None \<and> highlightedRef s4 = None \<and> classList s4 3 = {} \<and>
       intervals s4 = {} \<and>
       \<not> enabled s5 \<and> position s5 = Some (Fin 960, Fin 540) \<and> highlightedRef s5 = Some 3 \<and>
       classList s5 3 = set highlightClasses)"
proof -
  let ?URL = "\<lambda>path base :: string. Returns (base @ path) :: string attempt"
  let ?parse = "\<lambda>raw :: string. Returns None :: calibration option attempt"
  let ?s1 = "\<lparr>enabled = True, position = None, backendRef = Some ''http://localhost:8000'',
       calibrationRef = None, pollTimerRef = None, pollingBusyRef = False,
       highlightedRef = None, classList = (\<lambda>e. {}), intervals = {},
       console_warnings = []\<rparr> :: nat overlay"
  let ?s2 = "\<lparr>enabled = True, position = None, backendRef = Some ''http://localhost:8000'',
       calibrationRef = None, pollTimerRef = Some 7, pollingBusyRef = True,
       highlightedRef = None, classList = (\<lambda>e. {}), intervals = {7},
       console_warnings = []\<rparr> :: nat overlay"
  let ?s3 = "\<lparr>enabled = False, position = None, backendRef = Some ''http://localhost:8000'',
       calibrationRef = None, pollTimerRef = Some 7, pollingBusyRef = True,
       highlightedRef = None, classList = (\<lambda>e. {}), intervals = {7},
       console_warnings = []\<rparr> :: nat overlay"
  let ?s4 = "\<lparr>enabled = False, position = None, backendRef = Some ''http://localhost:8000'',
       calibrationRef = None, pollTimerRef = None, pollingBusyRef = False,
       highlightedRef = None, classList = (\<lambda>e. {}), intervals = {},
       console_warnings = []\<rparr> :: nat overlay"
  let ?s4p = "\<lparr>enabled = False, position = Some (Fin 960, Fin 540),
       backendRef = Some ''http://localhost:8000'', calibrationRef = None,
       pollTimerRef = None, pollingBusyRef = False, highlightedRef = None,
       classList = (\<lambda>e. {}), intervals = {}, console_warnings = []\<rparr> :: nat overlay"
  have e1: "syncFromStorage ?parse
      (Items [(BACKEND_URL_STORAGE_KEY, ''http://localhost:8000''), (OVERLAY_ENABLED_KEY, ''true'')])
      initial_overlay = ?s1"
    by (simp add: syncFromStorage_def getItem_def truthy_def initial_overlay_def
        BACKEND_URL_STORAGE_KEY_def CALIBRATION_STORAGE_KEY_def OVERLAY_ENABLED_KEY_def)
  have e2: "poll_effect ?URL 7 True ?s1 = (?s2, Some ''http://localhost:8000/api/gaze'')"
    by (simp add: poll_effect_def pollGaze_start_def truthy_def)
  have e3: "syncFromStorage ?parse
      (Items [(BACKEND_URL_STORAGE_KEY, ''http://localhost:8000'')]) ?s2 = ?s3"
    by (simp add: syncFromStorage_def getItem_def truthy_def
        BACKEND_URL_STORAGE_KEY_def CALIBRATION_STORAGE_KEY_def OVERLAY_ENABLED_KEY_def
        clearHighlight_def clearHighlight_writes_def)
  have e4: "poll_effect ?URL 8 False (poll_effect_cleanup ?s3) = (?s4, None)"
    by (simp add: poll_effect_def poll_effect_cleanup_def clear_poll_timer_def
        clearHighlight_def clearHighlight_writes_def)
  have e5: "gaze_point \<lparr>innerWidth = 1920, innerHeight = 1080\<rparr> None
      \<lparr>calibrated_position = None,
        normalized_pupil = Some \<lparr>coord_x = Some (Fin (1 / 2)), coord_y = Some (Fin (1 / 2))\<rparr>\<rparr>
      = Some (Fin 960, Fin 540)"
    by (simp add: gaze_point_def gaze_px_py_def ToNumber_def of_long_def Number_isNaN_def
        js_mul_Fin round_double_numeral clamped_Fin)
  have e6: "pollGaze_settle \<lparr>innerWidth = 1920, innerHeight = 1080\<rparr>
      \<lparr>elementFromPoint = (\<lambda>x y. Some (3::nat)), closest_activate = (\<lambda>e. Some e)\<rparr>
      (Response True (Json \<lparr>calibrated_position = None,
        normalized_pupil = Some \<lparr>coord_x = Some (Fin (1 / 2)), coord_y = Some (Fin (1 / 2))\<rparr>\<rparr>))
      ?s4 = pollGaze_finally (applyHighlight (Some 3) ?s4p)"
    by (simp add: pollGaze_settle_def e5)
  have e7: "classList (applyHighlight (Some 3) ?s4p) 3
      = set highlightClasses"
    by (simp add: applyHighlight_def applyHighlight_writes_def clearHighlight_writes_def
        fold_add_classList)
  show ?thesis
    unfolding Let_def e1
    by (simp add: e2 e3 e4 e6 e7 pollGaze_finally_def applyHighlight_frame applyHighlight_ref)
qed

end
